theory Spec2Isabelle
  imports Main "HOL-Library.Log_Nat"
begin

section \<open>JavaScript numbers\<close>

text \<open>
  The popup scripts compute with JavaScript numbers: IEEE 754 binary64 values. A finite
  number is modelled by the rational it denotes, and every arithmetic result is rounded to
  the nearest binary64 value by \<open>rnd64\<close> (ties to even, overflow to an infinity), as the
  language prescribes. Negative zero is identified with zero: the scripts never divide
  by a value that could be a zero, so its sign is not observable in them.
\<close>

datatype jsnum = Fin rat | NaN | PosInf | NegInf

definition pow :: "nat \<Rightarrow> int \<Rightarrow> rat" where
  "pow b e = (if 0 \<le> e then of_nat b ^ nat e else 1 / of_nat b ^ nat (- e))"

text \<open>The integer \<open>e\<close> with \<open>b ^ e \<le> a < b ^ (e + 1)\<close>, for positive \<open>a\<close>.\<close>

definition ilog :: "nat \<Rightarrow> rat \<Rightarrow> int" where
  "ilog b a =
     (if 1 \<le> a then int (floorlog b (nat \<lfloor>a\<rfloor>)) - 1
      else - int (floorlog b (nat (\<lceil>1 / a\<rceil> - 1))))"

definition round_even :: "rat \<Rightarrow> int" where
  "round_even r =
     (let f = \<lfloor>r\<rfloor>; d = r - of_int f
      in if d < 1 / 2 then f else if 1 / 2 < d then f + 1
         else if even f then f else f + 1)"

text \<open>
  Rounding to binary64: 53 significant bits, exponents from \<open>-1022\<close> (below it the
  spacing stays \<open>2 ^ -1074\<close>: subnormal numbers) to \<open>1023\<close>.
\<close>

definition rnd64 :: "rat \<Rightarrow> jsnum" where
  "rnd64 q =
     (if q = 0 then Fin 0
      else let a = \<bar>q\<bar>;
               e = max (ilog 2 a) (- 1022);
               ulp = pow 2 (e - 52);
               v = of_int (round_even (a / ulp)) * ulp
           in if pow 2 1024 \<le> v then (if 0 < q then PosInf else NegInf)
              else Fin (if 0 < q then v else - v))"

definition jadd :: "jsnum \<Rightarrow> jsnum \<Rightarrow> jsnum" where
  "jadd x y =
     (case (x, y) of
        (Fin a, Fin b) \<Rightarrow> rnd64 (a + b)
      | (NaN, _) \<Rightarrow> NaN
      | (_, NaN) \<Rightarrow> NaN
      | (PosInf, NegInf) \<Rightarrow> NaN
      | (NegInf, PosInf) \<Rightarrow> NaN
      | (PosInf, _) \<Rightarrow> PosInf
      | (NegInf, _) \<Rightarrow> NegInf
      | (_, z) \<Rightarrow> z)"

definition jmul :: "jsnum \<Rightarrow> jsnum \<Rightarrow> jsnum" where
  "jmul x y =
     (let sgn = (\<lambda>z. case z of Fin c \<Rightarrow> (if c = 0 then 0 else if 0 < c then 1 else - 1)
                        | PosInf \<Rightarrow> 1 | NegInf \<Rightarrow> - 1 | NaN \<Rightarrow> (0::int))
      in case (x, y) of
           (Fin a, Fin b) \<Rightarrow> rnd64 (a * b)
         | (NaN, _) \<Rightarrow> NaN
         | (_, NaN) \<Rightarrow> NaN
         | _ \<Rightarrow> (if sgn x * sgn y = 0 then NaN
                 else if 0 < sgn x * sgn y then PosInf else NegInf))"

definition jdiv :: "jsnum \<Rightarrow> jsnum \<Rightarrow> jsnum" where
  "jdiv x y =
     (case (x, y) of
        (Fin a, Fin b) \<Rightarrow>
          if b = 0 then (if a = 0 then NaN else if 0 < a then PosInf else NegInf)
          else rnd64 (a / b)
      | (NaN, _) \<Rightarrow> NaN
      | (_, NaN) \<Rightarrow> NaN
      | (Fin a, _) \<Rightarrow> Fin 0
      | (PosInf, Fin b) \<Rightarrow> (if 0 \<le> b then PosInf else NegInf)
      | (NegInf, Fin b) \<Rightarrow> (if 0 \<le> b then NegInf else PosInf)
      | _ \<Rightarrow> NaN)"

text \<open>\<open>x > y\<close> on numbers: false as soon as one side is \<open>NaN\<close>.\<close>

definition jgreater :: "jsnum \<Rightarrow> jsnum \<Rightarrow> bool" where
  "jgreater x y =
     (case (x, y) of
        (Fin a, Fin b) \<Rightarrow> b < a
      | (NaN, _) \<Rightarrow> False
      | (_, NaN) \<Rightarrow> False
      | (PosInf, PosInf) \<Rightarrow> False
      | (PosInf, _) \<Rightarrow> True
      | (_, NegInf) \<Rightarrow> y \<noteq> x
      | _ \<Rightarrow> False)"

subsection \<open>Numbers to strings\<close>

text \<open>
  Strings are lists of 8-bit characters: the model covers the code units
  \<open>U+0000\<close> to \<open>U+00FF\<close> of JavaScript's UTF-16 strings.
\<close>

fun digits :: "nat \<Rightarrow> string" where
  "digits n = (if n < 10 then [''0123456789'' ! n]
               else digits (n div 10) @ [''0123456789'' ! (n mod 10)])"

declare digits.simps [simp del]

text \<open>
  \<open>Number::toString\<close>: the shortest decimal \<open>s \<times> 10 ^ (n - k)\<close>, with \<open>k\<close> digits
  \<open>s\<close>, that reads back as the number; of several such decimals the one closest to it,
  and of two equally close the one with \<open>s\<close> even.
  \<open>shortest q k\<close> lists the candidates with \<open>k\<close> digits. A binary64 value has one with at
  most 17 digits.
\<close>

definition shortest :: "rat \<Rightarrow> nat \<Rightarrow> (int \<times> int) list" where
  "shortest q k =
     (let e = ilog 10 q
      in [(s, n). n \<leftarrow> [e + 1, e + 2],
                  s \<leftarrow> [\<lfloor>q / pow 10 (n - int k)\<rfloor>, \<lceil>q / pow 10 (n - int k)\<rceil>],
                  10 ^ (k - 1) \<le> s \<and> s < 10 ^ k \<and>
                  rnd64 (of_int s * pow 10 (n - int k)) = Fin q])"

fun closest :: "rat \<Rightarrow> nat \<Rightarrow> (int \<times> int) list \<Rightarrow> int \<times> int" where
  "closest q k [] = (round_even (q / pow 10 (ilog 10 q + 1 - int k)), ilog 10 q + 1)"
| "closest q k [c] = c"
| "closest q k ((s, n) # (s', n') # cs) =
     (if \<bar>of_int s * pow 10 (n - int k) - q\<bar> < \<bar>of_int s' * pow 10 (n' - int k) - q\<bar> \<or>
         \<bar>of_int s * pow 10 (n - int k) - q\<bar> = \<bar>of_int s' * pow 10 (n' - int k) - q\<bar> \<and>
         even s
      then closest q k ((s, n) # cs) else closest q k ((s', n') # cs))"

text \<open>Search \<open>k, k + 1, \<dots>, k + fuel\<close>; the last length is taken whatever it gives.\<close>

fun search :: "rat \<Rightarrow> nat \<Rightarrow> nat \<Rightarrow> nat \<times> int \<times> int" where
  "search q k 0 = (k, closest q k (shortest q k))"
| "search q k (Suc fuel) =
     (if shortest q k = [] then search q (Suc k) fuel
      else (k, closest q k (shortest q k)))"

definition pos_to_string :: "rat \<Rightarrow> string" where
  "pos_to_string q =
     (let (k, s, n) = search q 1 16;
          ds = digits (nat s);
          ex = (\<lambda>m. (if 0 \<le> m then ''+'' else ''-'') @ digits (nat \<bar>m\<bar>))
      in if int k \<le> n \<and> n \<le> 21 then ds @ replicate (nat (n - int k)) (CHR ''0'')
         else if 0 < n \<and> n \<le> 21 then take (nat n) ds @ ''.'' @ drop (nat n) ds
         else if - 6 < n \<and> n \<le> 0 then ''0.'' @ replicate (nat (- n)) (CHR ''0'') @ ds
         else if k = 1 then ds @ ''e'' @ ex (n - 1)
         else take 1 ds @ ''.'' @ drop 1 ds @ ''e'' @ ex (n - 1))"

definition num_to_string :: "jsnum \<Rightarrow> string" where
  "num_to_string x =
     (case x of
        NaN \<Rightarrow> ''NaN''
      | PosInf \<Rightarrow> ''Infinity''
      | NegInf \<Rightarrow> ''-Infinity''
      | Fin q \<Rightarrow> if q = 0 then ''0''
                 else if q < 0 then ''-'' @ pos_to_string (- q) else pos_to_string q)"

text \<open>
  \<open>Number.prototype.toFixed\<close>: the integer \<open>n\<close> with \<open>n / 10 ^ f\<close> closest to the
  number, the larger one of two, printed with \<open>f\<close> digits after the point; numbers from
  \<open>10 ^ 21\<close> on and non-finite ones print as \<open>num_to_string\<close> does.
\<close>

definition toFixed :: "jsnum \<Rightarrow> nat \<Rightarrow> string" where
  "toFixed x f =
     (case x of
        Fin q \<Rightarrow>
          if 10 ^ 21 \<le> \<bar>q\<bar> then num_to_string x
          else let n = nat \<lfloor>\<bar>q\<bar> * 10 ^ f + 1 / 2\<rfloor>;
                   m = digits n;
                   m' = (if length m \<le> f then replicate (f + 1 - length m) (CHR ''0'') @ m
                         else m);
                   body = (if f = 0 then m'
                           else take (length m' - f) m' @ ''.'' @ drop (length m' - f) m')
               in (if q < 0 then ''-'' else '''') @ body
      | _ \<Rightarrow> num_to_string x)"

subsection \<open>Strings to numbers\<close>

definition is_digit :: "char \<Rightarrow> bool" where
  "is_digit c = (c \<in> set ''0123456789'')"

text \<open>White space and line terminators below \<open>U+0100\<close>.\<close>

definition is_space :: "char \<Rightarrow> bool" where
  "is_space c = (c \<in> set [CHR 0x09, CHR 0x0A, CHR 0x0B, CHR 0x0C, CHR 0x0D, CHR 0x20, CHR 0xA0])"

definition digit_value :: "char \<Rightarrow> nat" where
  "digit_value c =
     (if is_digit c then of_char c - 48
      else if c \<in> set ''abcdef'' then of_char c - 87
      else if c \<in> set ''ABCDEF'' then of_char c - 55
      else 36)"

definition radix_value :: "nat \<Rightarrow> string \<Rightarrow> nat" where
  "radix_value b ds = foldl (\<lambda>a c. b * a + digit_value c) 0 ds"

definition strip_sign :: "string \<Rightarrow> rat \<times> string" where
  "strip_sign s =
     (case s of
        c # t \<Rightarrow> if c = CHR ''-'' then (- 1, t) else if c = CHR ''+'' then (1, t) else (1, s)
      | [] \<Rightarrow> (1, s))"

text \<open>
  The longest prefix of the text that is an unsigned decimal literal (digits, an optional
  fraction, an optional exponent; not \<open>Infinity\<close>), as the rational it denotes, with the
  text that follows it. An \<open>e\<close> without digits after it is not part of the literal.
\<close>

definition decimal_prefix :: "string \<Rightarrow> (rat \<times> string) option" where
  "decimal_prefix s =
     (let ip = takeWhile is_digit s;
          r1 = dropWhile is_digit s;
          dot = (r1 \<noteq> [] \<and> hd r1 = CHR ''.'');
          fp = (if dot then takeWhile is_digit (tl r1) else []);
          r2 = (if dot then dropWhile is_digit (tl r1) else r1);
          mant = of_nat (radix_value 10 (ip @ fp)) / 10 ^ length fp;
          has_e = (r2 \<noteq> [] \<and> (hd r2 = CHR ''e'' \<or> hd r2 = CHR ''E''));
          (sg, r3) = strip_sign (tl r2);
          ed = takeWhile is_digit r3
      in if ip = [] \<and> fp = [] then None
         else if has_e \<and> ed \<noteq> []
         then Some (mant * pow 10 (if sg < 0 then - int (radix_value 10 ed)
                                   else int (radix_value 10 ed)),
                    dropWhile is_digit r3)
         else Some (mant, r2))"

text \<open>\<open>parseFloat\<close>: leading white space is skipped, what follows the literal is ignored.\<close>

definition parseFloat :: "string \<Rightarrow> jsnum" where
  "parseFloat s =
     (let (sg, u) = strip_sign (dropWhile is_space s)
      in if take 8 u = ''Infinity'' then (if sg < 0 then NegInf else PosInf)
         else case decimal_prefix u of
                None \<Rightarrow> NaN
              | Some (q, _) \<Rightarrow> rnd64 (sg * q))"

text \<open>\<open>parseInt\<close> with radix 10.\<close>

definition parseInt10 :: "string \<Rightarrow> jsnum" where
  "parseInt10 s =
     (let (sg, u) = strip_sign (dropWhile is_space s);
          ds = takeWhile is_digit u
      in if ds = [] then NaN else rnd64 (sg * of_nat (radix_value 10 ds)))"

definition trim :: "string \<Rightarrow> string" where
  "trim s = rev (dropWhile is_space (rev (dropWhile is_space s)))"

text \<open>
  The conversion of a whole string to a number: empty or blank text is \<open>0\<close>; otherwise
  the trimmed text has to be one numeric literal (decimal, or an unsigned integer in base
  16, 8 or 2 after \<open>0x\<close>, \<open>0o\<close>, \<open>0b\<close>) from its first to its last character.
\<close>

definition radix_literal :: "string \<Rightarrow> jsnum option" where
  "radix_literal t =
     (case t of
        z # c # ds \<Rightarrow>
          (let b = (if c \<in> set ''xX'' then 16 else if c \<in> set ''oO'' then 8
                    else if c \<in> set ''bB'' then 2 else 0)
           in if z = CHR ''0'' \<and> b \<noteq> 0
              then Some (if ds \<noteq> [] \<and> list_all (\<lambda>d. digit_value d < b) ds
                         then rnd64 (of_nat (radix_value b ds)) else NaN)
              else None)
      | _ \<Rightarrow> None)"

definition string_to_number :: "string \<Rightarrow> jsnum" where
  "string_to_number s =
     (let t = trim s
      in if t = [] then Fin 0
         else case radix_literal t of
                Some x \<Rightarrow> x
              | None \<Rightarrow>
                  (let (sg, u) = strip_sign t
                   in if u = ''Infinity'' then (if sg < 0 then NegInf else PosInf)
                      else case decimal_prefix u of
                             Some (q, []) \<Rightarrow> rnd64 (sg * q)
                           | _ \<Rightarrow> NaN))"

section \<open>JavaScript values\<close>

text \<open>
  The values a parsed JSON text can hold, and \<open>undefined\<close> for what is absent. An object
  is its list of properties. The objects here are plain data: the properties that every
  object inherits (\<open>toString\<close>, \<open>constructor\<close>, \<dots>) are not among the names the scripts
  read, and an own property called \<open>toString\<close> or \<open>valueOf\<close> is not modelled.
\<close>

datatype jsval =
    Undefined
  | Null
  | Bool bool
  | Num jsnum
  | Str string
  | Arr "jsval list"
  | Obj "(string \<times> jsval) list"

text \<open>
  What a \<open>throw\<close> or a rejected promise carries: an error object of the engine
  (\<open>TypeError\<close>, \<open>SyntaxError\<close>) or of the script (\<open>new Error(message)\<close>), each with its
  message, or any other value passed to \<open>Promise.reject\<close>.
\<close>

datatype thrown = TypeError string | SyntaxError string | Error string | Rejected jsval

fun truthy :: "jsval \<Rightarrow> bool" where
  "truthy Undefined = False"
| "truthy Null = False"
| "truthy (Bool b) = b"
| "truthy (Num x) = (x \<noteq> Fin 0 \<and> x \<noteq> NaN)"
| "truthy (Str s) = (s \<noteq> [])"
| "truthy (Arr xs) = True"
| "truthy (Obj fs) = True"

text \<open>\<open>a || b\<close> where evaluating \<open>b\<close> cannot throw.\<close>

definition lor :: "jsval \<Rightarrow> jsval \<Rightarrow> jsval" where
  "lor a b = (if truthy a then a else b)"

fun join :: "string \<Rightarrow> string list \<Rightarrow> string" where
  "join sep [] = []"
| "join sep [x] = x"
| "join sep (x # y # ys) = x @ sep @ join sep (y # ys)"

fun to_string :: "jsval \<Rightarrow> string" where
  "to_string Undefined = ''undefined''"
| "to_string Null = ''null''"
| "to_string (Bool b) = (if b then ''true'' else ''false'')"
| "to_string (Num x) = num_to_string x"
| "to_string (Str s) = s"
| "to_string (Arr xs) =
     join '','' (map (\<lambda>x. if x = Undefined \<or> x = Null then [] else to_string x) xs)"
| "to_string (Obj fs) = ''[object Object]''"

fun to_number :: "jsval \<Rightarrow> jsnum" where
  "to_number Undefined = NaN"
| "to_number Null = Fin 0"
| "to_number (Bool b) = (if b then Fin 1 else Fin 0)"
| "to_number (Num x) = x"
| "to_number (Str s) = string_to_number s"
| "to_number (Arr xs) = string_to_number (to_string (Arr xs))"
| "to_number (Obj fs) = string_to_number (to_string (Obj fs))"

text \<open>
  \<open>a === b\<close>. Two objects or arrays are equal only when they are the same object; the
  scripts compare a value read from storage with one held in memory, which never are.
\<close>

definition strict_eq :: "jsval \<Rightarrow> jsval \<Rightarrow> bool" where
  "strict_eq a b =
     (case (a, b) of
        (Undefined, Undefined) \<Rightarrow> True
      | (Null, Null) \<Rightarrow> True
      | (Bool x, Bool y) \<Rightarrow> x = y
      | (Num x, Num y) \<Rightarrow> x = y \<and> x \<noteq> NaN
      | (Str s, Str t) \<Rightarrow> s = t
      | _ \<Rightarrow> False)"

definition bindE :: "thrown + 'a \<Rightarrow> ('a \<Rightarrow> thrown + 'b) \<Rightarrow> thrown + 'b" where
  "bindE r f = (case r of Inl e \<Rightarrow> Inl e | Inr x \<Rightarrow> f x)"

definition index_of_key :: "string \<Rightarrow> nat option" where
  "index_of_key k =
     (if k \<noteq> [] \<and> list_all is_digit k \<and> digits (radix_value 10 k) = k
      then Some (radix_value 10 k) else None)"

definition no_properties :: "string \<Rightarrow> string \<Rightarrow> thrown" where
  "no_properties what k =
     TypeError (''Cannot read properties of '' @ what @ '' (reading '' @ [CHR 0x27] @ k
                @ [CHR 0x27] @ '')'')"

text \<open>
  Reading the property \<open>k\<close>: \<open>v.k\<close> or \<open>v[k]\<close>. It throws on \<open>undefined\<close> and \<open>null\<close>
  only; a missing property reads as \<open>undefined\<close>.
\<close>

fun get :: "jsval \<Rightarrow> string \<Rightarrow> thrown + jsval" where
  "get Undefined k = Inl (no_properties ''undefined'' k)"
| "get Null k = Inl (no_properties ''null'' k)"
| "get (Obj fs) k = Inr (case map_of fs k of None \<Rightarrow> Undefined | Some v \<Rightarrow> v)"
| "get (Arr xs) k =
     Inr (if k = ''length'' then Num (Fin (of_nat (length xs)))
          else case index_of_key k of
                 None \<Rightarrow> Undefined
               | Some i \<Rightarrow> if i < length xs then xs ! i else Undefined)"
| "get (Str s) k =
     Inr (if k = ''length'' then Num (Fin (of_nat (length s)))
          else case index_of_key k of
                 None \<Rightarrow> Undefined
               | Some i \<Rightarrow> if i < length s then Str [s ! i] else Undefined)"
| "get (Bool b) k = Inr Undefined"
| "get (Num x) k = Inr Undefined"

text \<open>\<open>v.k = x\<close>, for the plain objects of this model.\<close>

fun put :: "jsval \<Rightarrow> string \<Rightarrow> jsval \<Rightarrow> jsval" where
  "put (Obj fs) k x =
     Obj (if k \<in> fst ` set fs then map (\<lambda>(k', v). if k' = k then (k', x) else (k', v)) fs
          else fs @ [(k, x)])"
| "put v k x = v"

definition not_a_function :: "string \<Rightarrow> thrown" where
  "not_a_function m = TypeError (m @ '' is not a function'')"

text \<open>
  The methods the scripts call; a value without the method makes the call throw a
  \<open>TypeError\<close>. Its message here names the method alone; an engine may spell out the
  expression that was called.
\<close>

fun split_char :: "char \<Rightarrow> string \<Rightarrow> string list" where
  "split_char c [] = [[]]"
| "split_char c (x # xs) =
     (if x = c then [] # split_char c xs
      else case split_char c xs of p # ps \<Rightarrow> (x # p) # ps | [] \<Rightarrow> [[x]])"

fun split :: "jsval \<Rightarrow> char \<Rightarrow> thrown + jsval" where
  "split (Str s) c = Inr (Arr (map Str (split_char c s)))"
| "split Undefined c = Inl (no_properties ''undefined'' ''split'')"
| "split Null c = Inl (no_properties ''null'' ''split'')"
| "split v c = Inl (not_a_function ''split'')"

fun substring :: "jsval \<Rightarrow> nat \<Rightarrow> nat \<Rightarrow> thrown + jsval" where
  "substring (Str s) i j = Inr (Str (take (max i j - min i j) (drop (min i j) s)))"
| "substring Undefined i j = Inl (no_properties ''undefined'' ''substring'')"
| "substring Null i j = Inl (no_properties ''null'' ''substring'')"
| "substring v i j = Inl (not_a_function ''substring'')"

text \<open>\<open>items.slice(0, n)\<close>, on an array or on a string.\<close>

fun slice0 :: "jsval \<Rightarrow> nat \<Rightarrow> thrown + jsval" where
  "slice0 (Arr xs) n = Inr (Arr (take n xs))"
| "slice0 (Str s) n = Inr (Str (take n s))"
| "slice0 Undefined n = Inl (no_properties ''undefined'' ''slice'')"
| "slice0 Null n = Inl (no_properties ''null'' ''slice'')"
| "slice0 v n = Inl (not_a_function ''slice'')"

text \<open>
  The elements that \<open>forEach\<close>, \<open>some\<close> or \<open>filter\<close> visit: arrays alone have these
  methods.
\<close>

fun elements :: "jsval \<Rightarrow> string \<Rightarrow> thrown + jsval list" where
  "elements (Arr xs) m = Inr xs"
| "elements Undefined m = Inl (no_properties ''undefined'' m)"
| "elements Null m = Inl (no_properties ''null'' m)"
| "elements v m = Inl (not_a_function m)"

section \<open>The popup\<close>

text \<open>
  What the scripts look up with \<open>getElementById\<close> and change, reduced to the properties
  they assign: whether the class list holds \<open>hidden\<close>, the text content, the children.
  A child node is an element (its tag, its class, its children), a text node, or what the
  browser's HTML parser builds from markup assigned to \<open>innerHTML\<close>. The parser and the
  serialisation of nodes are the browser's and are not modelled: \<open>Markup s\<close> stands for
  the nodes built from the text \<open>s\<close>, and \<open>Reparsed ns s\<close> for the nodes built from the
  serialisation of the nodes \<open>ns\<close> followed by the text \<open>s\<close>, which is what
  \<open>el.innerHTML += s\<close> assigns when \<open>ns\<close> are the children of \<open>el\<close>.
\<close>

datatype node =
    Markup string
  | Reparsed "node list" string
  | Text string
  | Element string string "node list"

record popup =
  loader_hidden :: bool
  errorDiv_hidden :: bool
  errorDiv_text :: string
  resultsDiv_hidden :: bool
  analyzeBtn_disabled :: bool
  productNameEl_text :: string
  scoreEl_text :: string
  positiveBarEl_width :: string
  sentimentTextEl_text :: string
  summaryEl_text :: string
  prosListEl :: "node list"
  consListEl :: "node list"
  bookmarksListContainer :: "node list"
  currentProductData :: jsval
  storage_bookmarks :: jsval
  alerts :: "string list"

text \<open>
  \<open>currentProductData\<close> is the script's variable; \<open>storage_bookmarks\<close> is what
  \<open>chrome.storage.local\<close> holds under \<open>bookmarks\<close> (\<open>undefined\<close> before the first write,
  and each write replaces the whole value); \<open>alerts\<close> are the messages shown with
  \<open>alert\<close>, oldest first. The popup as it opens:
\<close>

definition popup_opened :: popup where
  "popup_opened =
     \<lparr>loader_hidden = True, errorDiv_hidden = True, errorDiv_text = [],
      resultsDiv_hidden = True, analyzeBtn_disabled = False, productNameEl_text = [],
      scoreEl_text = [], positiveBarEl_width = [], sentimentTextEl_text = [],
      summaryEl_text = [], prosListEl = [], consListEl = [],
      bookmarksListContainer = [], currentProductData = Null,
      storage_bookmarks = Undefined, alerts = []\<rparr>"

subsection \<open>Statements: a result or a thrown value, and the popup after them\<close>

text \<open>
  A statement runs from a popup to a result, or to the value it threw, and the popup it
  left: what was assigned before a \<open>throw\<close> stays assigned.
\<close>

type_synonym 'a stmt = "popup \<Rightarrow> (thrown + 'a) \<times> popup"

definition ret :: "'a \<Rightarrow> 'a stmt" where
  "ret x s = (Inr x, s)"

definition expr :: "thrown + 'a \<Rightarrow> 'a stmt" where
  "expr r s = (r, s)"

definition modify :: "(popup \<Rightarrow> popup) \<Rightarrow> unit stmt" where
  "modify f s = (Inr (), f s)"

definition bind :: "'a stmt \<Rightarrow> ('a \<Rightarrow> 'b stmt) \<Rightarrow> 'b stmt" where
  "bind m f s = (case m s of (Inl e, s') \<Rightarrow> (Inl e, s') | (Inr x, s') \<Rightarrow> f x s')"

definition andThen :: "'a stmt \<Rightarrow> 'b stmt \<Rightarrow> 'b stmt" where
  "andThen m n = bind m (\<lambda>_. n)"

text \<open>Assigning to \<open>textContent\<close>: \<open>null\<close> and \<open>undefined\<close> clear the text.\<close>

definition text_of :: "jsval \<Rightarrow> string" where
  "text_of v = (if v = Null \<or> v = Undefined then [] else to_string v)"

definition alert :: "string \<Rightarrow> unit stmt" where
  "alert message = modify (\<lambda>s. s\<lparr>alerts := alerts s @ [message]\<rparr>)"



fun block :: "unit stmt list \<Rightarrow> unit stmt" where
  "block [] = ret ()"
| "block (m # ms) = andThen m (block ms)"

fun mapE :: "('a \<Rightarrow> thrown + 'b) \<Rightarrow> 'a list \<Rightarrow> thrown + 'b list" where
  "mapE f [] = Inr []"
| "mapE f (x # xs) = bindE (f x) (\<lambda>y. bindE (mapE f xs) (\<lambda>ys. Inr (y # ys)))"




section \<open>The first script of \<open>sentiment-extension/popup.js\<close>\<close>

definition displayError :: "jsval \<Rightarrow> unit stmt" where
  "displayError message =
     modify (\<lambda>s. s\<lparr>errorDiv_text := text_of message, errorDiv_hidden := False\<rparr>)"

text \<open>
  \<open>parseFloat((data.rating || "0").split(' ')[0])\<close>, the first line of the fallback score
  in \<open>calculateScore\<close> and, with the same text, in the \<open>displayResults\<close> of the other two
  scripts.
\<close>

definition parsed_rating :: "jsval \<Rightarrow> thrown + jsnum" where
  "parsed_rating data =
     bindE (get data ''rating'') (\<lambda>rating.
     bindE (split (lor rating (Str ''0'')) (CHR '' '')) (\<lambda>parts.
     bindE (get parts ''0'') (\<lambda>token.
     Inr (parseFloat (to_string token)))))"

definition calculateScore :: "jsval \<Rightarrow> thrown + jsval" where
  "calculateScore data =
     bindE (parsed_rating data) (\<lambda>rating.
     bindE (get data ''public_opinion'') (\<lambda>public_opinion.
     bindE (get public_opinion ''positive_percent'') (\<lambda>p.
     let positive_percent = lor p (Num (Fin 0));
         score = jadd (jmul (jmul (jdiv rating (Fin 5)) (Fin 10)) (rnd64 (6 / 10)))
                      (jmul (jdiv (to_number positive_percent) (Fin 10)) (rnd64 (4 / 10)))
     in Inr (Str (toFixed score 1)))))"

text \<open>
  \<open>item.examples[0].length > 50 ? item.examples[0].substring(0, 50) + '...' :
  item.examples[0]\<close>
\<close>

definition example_of :: "jsval \<Rightarrow> thrown + jsval" where
  "example_of examples =
     bindE (get examples ''0'') (\<lambda>first.
     bindE (get first ''length'') (\<lambda>len.
     if jgreater (to_number len) (Fin 50)
     then bindE (substring first 0 50) (\<lambda>cut. Inr (Str (to_string cut @ ''...'')))
     else Inr first))"

text \<open>
  The body of the \<open>forEach\<close> in \<open>populateVerdictList\<close>: the list item of one entry. Its
  \<open>innerHTML\<close> is assigned the \<open>span\<close> of the keyword; with an example,
  \<open>li.innerHTML += \<dots>\<close> then reads it back and assigns it again with the \<open>blockquote\<close>
  after it.
\<close>

definition verdict_li :: "jsval \<Rightarrow> thrown + node" where
  \<open>verdict_li item =
     bindE (get item ''keyword'') (\<lambda>keyword.
     let children = [Markup (''<span class="keyword">'' @ to_string keyword @ ''</span>'')]
     in bindE (get item ''examples'') (\<lambda>examples.
        if truthy examples
        then bindE (get examples ''length'') (\<lambda>n.
             if jgreater (to_number n) (Fin 0)
             then bindE (example_of examples) (\<lambda>example.
                  Inr (Element ''li'' []
                        [Reparsed children
                           (''<blockquote class="example-quote">"'' @ to_string example
                            @ ''"</blockquote>'')]))
             else Inr (Element ''li'' [] children))
        else Inr (Element ''li'' [] children)))\<close>

definition verdict_ul :: "jsval \<Rightarrow> thrown + node" where
  \<open>verdict_ul items =
     (if \<not> truthy items
      then Inr (Element ''ul'' ''verdict-list'' [Markup ''<li class="empty-list">N/A</li>''])
      else bindE (get items ''length'') (\<lambda>n.
           if strict_eq n (Num (Fin 0))
           then Inr (Element ''ul'' ''verdict-list''
                      [Markup ''<li class="empty-list">N/A</li>''])
           else bindE (slice0 items 4) (\<lambda>first4.
                bindE (elements first4 ''forEach'') (\<lambda>xs.
                bindE (mapE verdict_li xs) (\<lambda>lis.
                Inr (Element ''ul'' ''verdict-list'' lis))))))\<close>

text \<open>
  \<open>element\<close> is the update of the popup's list element that the caller passes
  (\<open>prosListEl\<close> or \<open>consListEl\<close>). The \<open>ul\<close> is attached after its items are built.
\<close>

definition populateVerdictList ::
  "((node list \<Rightarrow> node list) \<Rightarrow> popup \<Rightarrow> popup) \<Rightarrow> string \<Rightarrow> jsval \<Rightarrow> string \<Rightarrow> unit stmt"
where
  \<open>populateVerdictList element title items iconClass =
     (let titleIcon = (if title = ''Pros'' then ''fa-thumbs-up'' else ''fa-thumbs-down'');
          titleEl = Element ''h3'' []
                      [Markup (''<i class="fas '' @ titleIcon @ '' '' @ iconClass @ ''"></i>''
                               @ title)]
      in block
           [modify (element (\<lambda>_. [])),
            modify (element (\<lambda>c. c @ [titleEl])),
            bind (expr (verdict_ul items)) (\<lambda>ul. modify (element (\<lambda>c. c @ [ul])))])\<close>

text \<open>
  \<open>currentProductData = data\<close> makes the variable and \<open>data\<close> one object, so the \<open>url\<close>
  written next is a property of both.
\<close>

definition displayResults :: "jsval \<Rightarrow> unit stmt" where
  "displayResults data0 =
     (if \<not> truthy data0 then displayError (Str ''Received invalid data from the server.'')
      else bind (expr (get data0 ''public_opinion'')) (\<lambda>public_opinion.
      if \<not> truthy public_opinion
      then displayError (Str ''Received invalid data from the server.'')
      else bind (expr (get data0 ''product_url'')) (\<lambda>product_url.
      let data = put data0 ''url'' (lor product_url (Str [])) in
      block
        [modify (\<lambda>s. s\<lparr>currentProductData := data\<rparr>),
         bind (expr (get data ''product_name'')) (\<lambda>product_name.
           modify (\<lambda>s. s\<lparr>productNameEl_text :=
                           text_of (lor product_name (Str ''Product Name Not Found''))\<rparr>)),
         bind (expr (bindE (get data ''overall_score'') (\<lambda>overall_score.
                     if truthy overall_score then Inr overall_score
                     else calculateScore data))) (\<lambda>score.
           modify (\<lambda>s. s\<lparr>scoreEl_text := to_string score @ '' / 10''\<rparr>)),
         bind (expr (bindE (get data ''public_opinion'') (\<lambda>po.
                     get po ''positive_percent''))) (\<lambda>p.
           let positivePercent = lor p (Num (Fin 0))
           in block
                [modify (\<lambda>s. s\<lparr>positiveBarEl_width := to_string positivePercent @ ''%''\<rparr>),
                 modify (\<lambda>s. s\<lparr>sentimentTextEl_text :=
                                 to_string positivePercent @ ''% Positive''\<rparr>)]),
         bind (expr (get data ''review_summary_generator'')) (\<lambda>summary.
           modify (\<lambda>s. s\<lparr>summaryEl_text :=
                           text_of (lor summary (Str ''No summary available.''))\<rparr>)),
         bind (expr (bindE (get data ''pros_cons_panel'') (\<lambda>panel. get panel ''pros'')))
           (\<lambda>pros. populateVerdictList prosListEl_update ''Pros'' pros ''icon-green''),
         bind (expr (bindE (get data ''pros_cons_panel'') (\<lambda>panel. get panel ''cons'')))
           (\<lambda>cons. populateVerdictList consListEl_update ''Cons'' cons ''icon-red''),
         modify (\<lambda>s. s\<lparr>resultsDiv_hidden := False\<rparr>)])))"


subsection \<open>Bookmarks\<close>

text \<open>
  \<open>chrome.storage.local\<close> calls its callbacks with the stored value; each \<open>get\<close> and each
  \<open>set\<close> is one whole read or write, so a handler and its callbacks are run here as one
  sequence of statements.
\<close>

definition getBookmarks :: "jsval stmt" where
  "getBookmarks s = (Inr (lor (storage_bookmarks s) (Arr [])), s)"

definition saveBookmarks :: "jsval \<Rightarrow> unit stmt" where
  "saveBookmarks bookmarks = modify (\<lambda>s. s\<lparr>storage_bookmarks := bookmarks\<rparr>)"

text \<open>\<open>bookmarks.some(b => b.product_name === currentProductData.product_name)\<close>\<close>

fun some_product_name :: "jsval list \<Rightarrow> jsval \<Rightarrow> thrown + bool" where
  "some_product_name [] current = Inr False"
| "some_product_name (b # bs) current =
     bindE (get b ''product_name'') (\<lambda>name.
     bindE (get current ''product_name'') (\<lambda>current_name.
     if strict_eq name current_name then Inr True else some_product_name bs current))"

text \<open>The elements that \<open>[...v]\<close> spreads.\<close>

fun spread :: "jsval \<Rightarrow> thrown + jsval list" where
  "spread (Arr xs) = Inr xs"
| "spread (Str s) = Inr (map (\<lambda>c. Str [c]) s)"
| "spread v = Inl (TypeError (to_string v @ '' is not iterable''))"

text \<open>The click handler of \<open>bookmarkBtn\<close>.\<close>

definition bookmarkBtn_click :: "unit stmt" where
  "bookmarkBtn_click s =
     (if \<not> truthy (currentProductData s) then ret () s
      else bind getBookmarks (\<lambda>bookmarks.
           bind (expr (bindE (elements bookmarks ''some'') (\<lambda>bs.
                       some_product_name bs (currentProductData s)))) (\<lambda>duplicate.
           if duplicate then alert ''This product is already bookmarked!''
           else bind (expr (spread bookmarks)) (\<lambda>bs.
                block [saveBookmarks (Arr (bs @ [currentProductData s])),
                       alert ''Product bookmarked!'']))) s)"

definition bookmark_item :: "jsval \<Rightarrow> nat \<Rightarrow> thrown + node" where
  \<open>bookmark_item data index =
     bindE (get data ''overall_score'') (\<lambda>overall_score.
     bindE (if truthy overall_score then Inr overall_score else calculateScore data) (\<lambda>score.
     bindE (get data ''product_name'') (\<lambda>product_name.
     let nl = (\<lambda>n. CHR 0x0A # replicate n (CHR '' ''))
     in Inr (Element ''div'' ''bookmark-item''
              [Markup (nl 20 @ ''<div class="bookmark-info">''
                       @ nl 24 @ ''<p class="bookmark-title">'' @ to_string product_name
                       @ ''</p>''
                       @ nl 24 @ ''<p class="bookmark-score">Score: '' @ to_string score
                       @ '' / 10</p>''
                       @ nl 20 @ ''</div>''
                       @ nl 20 @ ''<button class="delete-bookmark-btn" data-index="''
                       @ to_string (Num (Fin (of_nat index)))
                       @ ''" title="Remove Bookmark"><i class="fas fa-trash-alt"></i></button>''
                       @ nl 16)]))))\<close>

text \<open>The \<open>forEach\<close> of \<open>loadAndRenderBookmarks\<close>, from position \<open>index\<close> on.\<close>

fun bookmark_items :: "jsval list \<Rightarrow> nat \<Rightarrow> unit stmt" where
  "bookmark_items [] index = ret ()"
| "bookmark_items (data # rest) index =
     andThen
       (bind (expr (bookmark_item data index)) (\<lambda>item.
          modify (bookmarksListContainer_update (\<lambda>c. c @ [item]))))
       (bookmark_items rest (Suc index))"

definition loadAndRenderBookmarks :: "unit stmt" where
  \<open>loadAndRenderBookmarks =
     bind getBookmarks (\<lambda>bookmarks.
     andThen (modify (bookmarksListContainer_update (\<lambda>_. [])))
       (bind (expr (get bookmarks ''length'')) (\<lambda>n.
        if strict_eq n (Num (Fin 0))
        then modify (bookmarksListContainer_update
                       (\<lambda>_. [Markup ''<p class="no-bookmarks">You have no saved products.</p>'']))
        else bind (expr (elements bookmarks ''forEach'')) (\<lambda>bs. bookmark_items bs 0))))\<close>

text \<open>
  \<open>bookmarks.filter((_, index) => index !== indexToDelete)\<close>, from position \<open>index\<close>
  on.
\<close>

fun filter_index :: "nat \<Rightarrow> jsval list \<Rightarrow> jsnum \<Rightarrow> jsval list" where
  "filter_index index [] indexToDelete = []"
| "filter_index index (b # bs) indexToDelete =
     (if \<not> strict_eq (Num (Fin (of_nat index))) (Num indexToDelete)
      then b # filter_index (Suc index) bs indexToDelete
      else filter_index (Suc index) bs indexToDelete)"

text \<open>
  The click handler of \<open>bookmarksListContainer\<close>. \<open>deleteBtn\<close> is what
  \<open>e.target.closest('.delete-bookmark-btn')\<close> finds: nothing, or a button, given by its
  \<open>dataset.index\<close>. \<open>confirmed\<close> is the user's answer to \<open>confirm\<close>, when it is asked.
\<close>

definition bookmarksListContainer_click :: "jsval option \<Rightarrow> bool \<Rightarrow> unit stmt" where
  "bookmarksListContainer_click deleteBtn confirmed =
     (case deleteBtn of
        None \<Rightarrow> ret ()
      | Some dataset_index \<Rightarrow>
          (let indexToDelete = parseInt10 (to_string dataset_index)
           in if confirmed
              then bind getBookmarks (\<lambda>bookmarks.
                   bind (expr (elements bookmarks ''filter'')) (\<lambda>bs.
                   block [saveBookmarks (Arr (filter_index 0 bs indexToDelete)),
                          loadAndRenderBookmarks]))
              else ret ()))"

section \<open>The script \<open>unnamed/part_000\<close>\<close>

text \<open>
  It has no bookmarks and builds the lists from elements and text nodes. Assigning an
  empty text leaves an element without children.
\<close>

definition text_children :: "string \<Rightarrow> node list" where
  "text_children t = (if t = [] then [] else [Text t])"

definition verdict_li_p0 :: "jsval \<Rightarrow> thrown + node" where
  \<open>verdict_li_p0 item =
     bindE (get item ''keyword'') (\<lambda>keyword.
     let keywordEl = Element ''span'' ''keyword'' (text_children (text_of keyword))
     in bindE (get item ''examples'') (\<lambda>examples.
        if truthy examples
        then bindE (get examples ''length'') (\<lambda>n.
             if jgreater (to_number n) (Fin 0)
             then bindE (example_of examples) (\<lambda>example.
                  Inr (Element ''li'' []
                        [keywordEl,
                         Element ''blockquote'' ''example-quote''
                           [Text (''"'' @ to_string example @ ''"'')]]))
             else Inr (Element ''li'' [] [keywordEl]))
        else Inr (Element ''li'' [] [keywordEl])))\<close>

definition verdict_ul_p0 :: "jsval \<Rightarrow> thrown + node" where
  "verdict_ul_p0 items =
     (if \<not> truthy items
      then Inr (Element ''ul'' ''verdict-list'' [Element ''li'' ''empty-list'' [Text ''N/A'']])
      else bindE (get items ''length'') (\<lambda>n.
           if strict_eq n (Num (Fin 0))
           then Inr (Element ''ul'' ''verdict-list''
                      [Element ''li'' ''empty-list'' [Text ''N/A'']])
           else bindE (slice0 items 4) (\<lambda>first4.
                bindE (elements first4 ''forEach'') (\<lambda>xs.
                bindE (mapE verdict_li_p0 xs) (\<lambda>lis.
                Inr (Element ''ul'' ''verdict-list'' lis))))))"

definition populateVerdictList_p0 ::
  "((node list \<Rightarrow> node list) \<Rightarrow> popup \<Rightarrow> popup) \<Rightarrow> string \<Rightarrow> jsval \<Rightarrow> string \<Rightarrow> unit stmt"
where
  \<open>populateVerdictList_p0 element title items iconClass =
     (let titleIcon = (if title = ''Pros'' then ''fa-thumbs-up'' else ''fa-thumbs-down'');
          titleEl = Element ''h3'' []
                      [Markup (''<i class="fas '' @ titleIcon @ '' '' @ iconClass @ ''"></i>''
                               @ title)]
      in block
           [modify (element (\<lambda>_. [])),
            modify (element (\<lambda>c. c @ [titleEl])),
            bind (expr (verdict_ul_p0 items)) (\<lambda>ul. modify (element (\<lambda>c. c @ [ul])))])\<close>

definition displayResults_p0 :: "jsval \<Rightarrow> unit stmt" where
  "displayResults_p0 data =
     (if \<not> truthy data then displayError (Str ''Received invalid data from the server.'')
      else bind (expr (get data ''public_opinion'')) (\<lambda>public_opinion.
      if \<not> truthy public_opinion
      then displayError (Str ''Received invalid data from the server.'')
      else
      block
        [bind (expr (get data ''product_name'')) (\<lambda>product_name.
           modify (\<lambda>s. s\<lparr>productNameEl_text :=
                           text_of (lor product_name (Str ''Product Name Not Found''))\<rparr>)),
         bind (expr (get data ''overall_score'')) (\<lambda>overall_score.
           if truthy overall_score
           then modify (\<lambda>s. s\<lparr>scoreEl_text := to_string overall_score @ '' / 10''\<rparr>)
           else bind (expr (parsed_rating data)) (\<lambda>rating.
                bind (expr (bindE (get data ''public_opinion'') (\<lambda>po.
                            get po ''positive_percent''))) (\<lambda>p.
                let positive_percent = lor p (Num (Fin 0));
                    score = jadd (jmul (jmul (jdiv rating (Fin 5)) (Fin 10)) (rnd64 (6 / 10)))
                                 (jmul (jdiv (to_number positive_percent) (Fin 10))
                                       (rnd64 (4 / 10)))
                in modify (\<lambda>s. s\<lparr>scoreEl_text := toFixed score 1 @ '' / 10''\<rparr>)))),
         bind (expr (bindE (get data ''public_opinion'') (\<lambda>po.
                     get po ''positive_percent''))) (\<lambda>p.
           let positivePercent = lor p (Num (Fin 0))
           in block
                [modify (\<lambda>s. s\<lparr>positiveBarEl_width := to_string positivePercent @ ''%''\<rparr>),
                 modify (\<lambda>s. s\<lparr>sentimentTextEl_text :=
                                 to_string positivePercent @ ''% Positive''\<rparr>)]),
         bind (expr (get data ''review_summary_generator'')) (\<lambda>summary.
           modify (\<lambda>s. s\<lparr>summaryEl_text :=
                           text_of (lor summary (Str ''No summary available.''))\<rparr>)),
         bind (expr (bindE (get data ''pros_cons_panel'') (\<lambda>panel. get panel ''pros'')))
           (\<lambda>pros. populateVerdictList_p0 prosListEl_update ''Pros'' pros ''icon-green''),
         bind (expr (bindE (get data ''pros_cons_panel'') (\<lambda>panel. get panel ''cons'')))
           (\<lambda>cons. populateVerdictList_p0 consListEl_update ''Cons'' cons ''icon-red''),
         modify (\<lambda>s. s\<lparr>resultsDiv_hidden := False\<rparr>)]))"



section \<open>The second script of \<open>sentiment-extension/popup.js\<close>\<close>

text \<open>
  The text after the separator line of the file: an earlier script that always computes
  the score and writes each list as markup.
\<close>

definition list_html :: "string \<Rightarrow> jsval \<Rightarrow> thrown + string" where
  "list_html heading items0 =
     (let items = lor items0 (Arr [])
      in bindE (get items ''length'') (\<lambda>n.
         bindE (if jgreater (to_number n) (Fin 0)
                then bindE (elements items ''forEach'') (\<lambda>xs.
                     Inr (concat (map (\<lambda>x. ''<li>'' @ to_string x @ ''</li>'') xs)))
                else Inr ''<li>N/A</li>'') (\<lambda>lis.
         Inr (''<h4>'' @ heading @ ''</h4><ul>'' @ lis @ ''</ul>''))))"

definition displayResults_legacy :: "jsval \<Rightarrow> unit stmt" where
  "displayResults_legacy data =
     (if \<not> truthy data then displayError (Str ''Received invalid data from the server.'')
      else bind (expr (get data ''public_opinion'')) (\<lambda>public_opinion.
      if \<not> truthy public_opinion
      then displayError (Str ''Received invalid data from the server.'')
      else
      block
        [bind (expr (get data ''product_name'')) (\<lambda>product_name.
           modify (\<lambda>s. s\<lparr>productNameEl_text :=
                           text_of (lor product_name (Str ''Product Name Not Found''))\<rparr>)),
         bind (expr (parsed_rating data)) (\<lambda>rating.
         bind (expr (bindE (get data ''public_opinion'') (\<lambda>po.
                     get po ''positive_percent''))) (\<lambda>p.
         let positive_percent = lor p (Num (Fin 0));
             score = jadd (jmul (jmul (jdiv rating (Fin 5)) (Fin 10)) (rnd64 (6 / 10)))
                          (jmul (jdiv (to_number positive_percent) (Fin 10)) (rnd64 (4 / 10)))
         in block
              [modify (\<lambda>s. s\<lparr>scoreEl_text := toFixed score 1 @ '' / 10''\<rparr>),
               modify (\<lambda>s. s\<lparr>positiveBarEl_width := to_string positive_percent @ ''%''\<rparr>),
               modify (\<lambda>s. s\<lparr>sentimentTextEl_text :=
                               to_string positive_percent @ ''% Positive Sentiment''\<rparr>)])),
         bind (expr (get data ''review_summary_generator'')) (\<lambda>summary.
           modify (\<lambda>s. s\<lparr>summaryEl_text :=
                           text_of (lor summary (Str ''No summary available.''))\<rparr>)),
         bind (expr (bindE (get data ''pros_cons_panel'') (\<lambda>panel.
               bindE (get panel ''pros'') (list_html ''Pros''))))
           (\<lambda>prosHtml. modify (\<lambda>s. s\<lparr>prosListEl := [Markup prosHtml]\<rparr>)),
         bind (expr (bindE (get data ''pros_cons_panel'') (\<lambda>panel.
               bindE (get panel ''cons'') (list_html ''Cons''))))
           (\<lambda>consHtml. modify (\<lambda>s. s\<lparr>consListEl := [Markup consHtml]\<rparr>)),
         modify (\<lambda>s. s\<lparr>resultsDiv_hidden := False\<rparr>)]))"


section \<open>The notions of the specification\<close>

text \<open>
  The score of the specification's result renderer,
  \<open>(rating/5*10)*0.6 + (positive_percent/10)*0.4\<close>, as a rational number.
\<close>

definition exact_score :: "rat \<Rightarrow> rat \<Rightarrow> rat" where
  "exact_score rating positive_percent =
     (rating / 5 * 10) * (6 / 10) + (positive_percent / 10) * (4 / 10)"

text \<open>The decimal numeral of a natural number.\<close>

definition digit_char :: "nat \<Rightarrow> char" where
  "digit_char d =
     (if d = 0 then CHR ''0'' else if d = 1 then CHR ''1'' else if d = 2 then CHR ''2''
      else if d = 3 then CHR ''3'' else if d = 4 then CHR ''4'' else if d = 5 then CHR ''5''
      else if d = 6 then CHR ''6'' else if d = 7 then CHR ''7'' else if d = 8 then CHR ''8''
      else CHR ''9'')"

fun decimal :: "nat \<Rightarrow> string" where
  "decimal n =
     (if n < 10 then [digit_char n] else decimal (n div 10) @ [digit_char (n mod 10)])"

declare decimal.simps [simp del]

text \<open>
  A number rounded to one decimal place for display: the nearest number of tenths (the
  upper one of two equally near), written as its whole part, a point and one digit. It is
  used for numbers that are not negative.
\<close>

definition tenths_text :: "nat \<Rightarrow> string" where
  "tenths_text n = decimal (n div 10) @ ''.'' @ [digit_char (n mod 10)]"

definition one_decimal :: "rat \<Rightarrow> string" where
  "one_decimal q = tenths_text (nat (round (10 * q)))"

text \<open>
  How far a number is from the nearest midpoint between two neighbouring numbers with one
  decimal (\<open>0.05\<close>, \<open>0.15\<close>, \<dots>), where rounding to one decimal changes direction.
\<close>

definition midpoint_distance :: "rat \<Rightarrow> rat" where
  "midpoint_distance q = \<bar>frac (10 * q) - 1 / 2\<bar> / 10"

text \<open>
  The same formula as the scripts evaluate it: every operation and the literals \<open>0.6\<close>
  and \<open>0.4\<close> in binary64, the result printed by \<open>toFixed(1)\<close>.
\<close>

definition spec_score :: "jsnum \<Rightarrow> jsnum \<Rightarrow> string" where
  "spec_score rating positive_percent =
     toFixed (jadd (jmul (jmul (jdiv rating (Fin 5)) (Fin 10)) (rnd64 (6 / 10)))
                   (jmul (jdiv positive_percent (Fin 10)) (rnd64 (4 / 10)))) 1"

text \<open>
  The quote of an example, in the specification's words: the first 50 characters and an
  ellipsis marker when the text is longer than 50 characters, the text itself otherwise.
\<close>

definition spec_quote :: "string \<Rightarrow> string" where
  "spec_quote ex = (if 50 < length ex then take 50 ex @ ''...'' else ex)"

text \<open>
  An entry of a pros or cons list, after the specification's data model: an object whose
  \<open>examples\<close>, when it has any, is a sequence of texts.
\<close>

definition is_text :: "jsval \<Rightarrow> bool" where
  "is_text v = (case v of Str _ \<Rightarrow> True | _ \<Rightarrow> False)"

definition wf_entry :: "jsval \<Rightarrow> bool" where
  "wf_entry item =
     (case item of
        Obj fs \<Rightarrow>
          (case map_of fs ''examples'' of
             None \<Rightarrow> True
           | Some (Arr es) \<Rightarrow> list_all is_text es
           | Some _ \<Rightarrow> False)
      | _ \<Rightarrow> False)"

text \<open>The uniqueness key of a bookmark: its \<open>product_name\<close>, \<open>undefined\<close> when it has none.\<close>

definition product_name_of :: "jsval \<Rightarrow> jsval" where
  "product_name_of v = (case get v ''product_name'' of Inr n \<Rightarrow> n | Inl _ \<Rightarrow> Undefined)"



text \<open>A statement keeps a component of the popup when it leaves it as it was.\<close>

definition keeps :: "(popup \<Rightarrow> 'a) \<Rightarrow> 'b stmt \<Rightarrow> bool" where
  "keeps f m = (\<forall>s. f (snd (m s)) = f s)"

subsection \<open>Example responses\<close>

definition rated_response :: jsval where
  "rated_response =
     Obj [(''rating'', Str ''4.5 out of 5''),
          (''public_opinion'', Obj [(''positive_percent'', Num (Fin 80))])]"

text \<open>A response whose score by the formula is \<open>5.55\<close>, half way between 5.5 and 5.6.\<close>

definition midpoint_response :: jsval where
  "midpoint_response =
     Obj [(''rating'', Str ''4.5 out of 5''),
          (''public_opinion'', Obj [(''positive_percent'', Num (Fin (15 / 4)))])]"

definition zero_score_response :: jsval where
  "zero_score_response =
     Obj [(''overall_score'', Num (Fin 0)), (''rating'', Str ''4.5 out of 5''),
          (''public_opinion'', Obj [(''positive_percent'', Num (Fin 80))])]"

definition unrated_response :: jsval where
  "unrated_response =
     Obj [(''rating'', Str ''N/A''),
          (''public_opinion'', Obj [(''positive_percent'', Num (Fin 80))])]"

text \<open>A response with every field but \<open>pros_cons_panel\<close>.\<close>

definition no_panel_response :: jsval where
  "no_panel_response =
     Obj [(''product_name'', Str ''Phone''), (''product_url'', Str ''https://shop.example/phone''),
          (''rating'', Str ''4.5 out of 5''), (''overall_score'', Num (Fin 8)),
          (''public_opinion'', Obj [(''positive_percent'', Num (Fin 80))]),
          (''review_summary_generator'', Str ''Buyers like it.'')]"

text \<open>A response with \<open>public_opinion\<close> and \<open>pros_cons_panel\<close> and nothing in them or beside them.\<close>

definition bare_response :: jsval where
  "bare_response = Obj [(''public_opinion'', Obj []), (''pros_cons_panel'', Obj [])]"

definition battery_entry :: jsval where
  "battery_entry =
     Obj [(''keyword'', Str ''battery''),
          (''examples'', Arr [Str ''The battery lasts two full days on a single charge, amazing!''])]"

text \<open>An entry whose example has markup in it.\<close>

definition markup_entry :: jsval where
  "markup_entry =
     Obj [(''keyword'', Str ''battery''),
          (''examples'', Arr [Str ''Great <b>battery</b> life''])]"

definition screen_entry :: jsval where
  "screen_entry = Obj [(''keyword'', Str ''screen''), (''examples'', Arr [Str ''Bright.''])]"

definition five_entries :: "jsval list" where
  "five_entries =
     [battery_entry, screen_entry,
      Obj [(''keyword'', Str ''camera'')],
      Obj [(''keyword'', Str ''price''), (''examples'', Arr [])],
      Obj [(''keyword'', Str ''sound''), (''examples'', Arr [Str ''Loud and clear.''])]]"

definition five_pros_response :: jsval where
  "five_pros_response =
     Obj [(''public_opinion'', Obj [(''positive_percent'', Num (Fin 80))]),
          (''pros_cons_panel'',
           Obj [(''pros'', Arr [Str ''fast'', Str ''light'', Str ''cheap'', Str ''sturdy'',
                                Str ''quiet'']),
                (''cons'', Arr [])])]"

definition five_entries_response :: jsval where
  "five_entries_response =
     Obj [(''public_opinion'', Obj [(''positive_percent'', Num (Fin 80))]),
          (''pros_cons_panel'', Obj [(''pros'', Arr five_entries), (''cons'', Arr [])])]"




text \<open>Bookmarks as \<open>displayResults\<close> of the first script leaves them in \<open>currentProductData\<close>.\<close>

definition phone :: jsval where
  "phone = Obj [(''product_name'', Str ''Phone''), (''overall_score'', Num (Fin 7)),
                (''public_opinion'', Obj []), (''pros_cons_panel'', Obj []), (''url'', Str [])]"

definition laptop :: jsval where
  "laptop = Obj [(''product_name'', Str ''Laptop''), (''overall_score'', Num (Fin 8)),
                 (''public_opinion'', Obj []), (''pros_cons_panel'', Obj []), (''url'', Str [])]"

definition tablet :: jsval where
  "tablet = Obj [(''product_name'', Str ''Tablet''), (''overall_score'', Num (Fin 9)),
                 (''public_opinion'', Obj []), (''pros_cons_panel'', Obj []), (''url'', Str [])]"

section \<open>Evaluating numbers in the kernel\<close>

text \<open>Rewrite rules that fire on numerals only, so that closed terms evaluate by \<open>simp\<close>.\<close>

lemma floor_rat_numeral [simp]:
  "\<lfloor>numeral a / numeral b :: rat\<rfloor> = numeral a div numeral b"
  using floor_divide_of_int_eq [of "numeral a" "numeral b", where ?'a = rat] by simp

lemma ceiling_rat_numeral [simp]:
  "\<lceil>numeral a / numeral b :: rat\<rceil> = - (- numeral a div numeral b)"
  unfolding ceiling_def
  using floor_divide_of_int_eq [of "- numeral a" "numeral b", where ?'a = rat] by simp

lemma floorlog_numeral [simp]:
  "floorlog b (numeral n) = (if 1 < b then floorlog b (numeral n div b) + 1 else 0)"
  by (simp add: compute_floorlog)

lemma floorlog_one [simp]: "floorlog b (Suc 0) = (if 1 < b then 1 else 0)"
  by (simp add: compute_floorlog)

lemma floorlog_zero [simp]: "floorlog b 0 = 0"
  by (simp add: compute_floorlog)

lemma digits_numeral [simp]:
  "digits (numeral n) =
     (if numeral n < (10::nat) then [''0123456789'' ! numeral n]
      else digits (numeral n div 10) @ [''0123456789'' ! (numeral n mod 10)])"
  by (rule digits.simps)

lemma digits_zero [simp]: "digits 0 = ''0''"
  by (simp add: digits.simps)

lemma digits_one [simp]: "digits (Suc 0) = ''1''"
  by (simp add: digits.simps)

lemma search_numeral [simp]:
  "search q k (numeral f) =
     (if shortest q k = [] then search q (Suc k) (pred_numeral f)
      else (k, closest q k (shortest q k)))"
  by (simp add: numeral_eq_Suc)

lemma replicate_numeral [simp]:
  "replicate (numeral k) x = x # replicate (pred_numeral k) x"
  by (simp add: numeral_eq_Suc)

lemmas num_eval = rnd64_def ilog_def pow_def round_even_def jadd_def jmul_def jdiv_def

lemmas parse_eval = parseFloat_def parseInt10_def strip_sign_def is_space_def
  decimal_prefix_def is_digit_def radix_value_def digit_value_def


text \<open>The literals \<open>0.6\<close> and \<open>0.4\<close>, as fractions in lowest terms.\<close>

lemma rnd64_3_5: "rnd64 (3 / 5) = Fin (5404319552844595 / 9007199254740992)"
  by (simp add: num_eval)

lemma rnd64_2_5: "rnd64 (2 / 5) = Fin (3602879701896397 / 9007199254740992)"
  by (simp add: num_eval)

lemma parseFloat_4_5: "parseFloat ''4.5'' = Fin (9 / 2)"
  by (simp add: parse_eval num_eval)

lemma parseFloat_Nil: "parseFloat [] = NaN"
  by (simp add: parse_eval)

lemma parseFloat_N_A: "parseFloat ''N/A'' = NaN"
  by (simp add: parse_eval)

lemma parseInt10_1: "parseInt10 ''1'' = Fin 1"
  by (simp add: parse_eval num_eval)

lemma spec_score_example: "spec_score (Fin (9 / 2)) (Fin 80) = ''8.6''"
  by (simp add: spec_score_def rnd64_3_5 rnd64_2_5 jadd_def jmul_def jdiv_def rnd64_def
      ilog_def pow_def round_even_def toFixed_def)

lemma spec_score_NaN: "spec_score NaN (Fin 80) = ''NaN''"
  by (simp add: spec_score_def jdiv_def jmul_def jadd_def toFixed_def num_to_string_def)


lemma jgreater_Fin: "jgreater (Fin a) (Fin b) = (b < a)"
  by (simp add: jgreater_def)

lemma length_positive: "(0::rat) < 1 + of_nat n"
  by (simp add: add_pos_nonneg)

lemma strict_eq_index:
  "strict_eq (Num (Fin (of_nat j))) (Num (Fin (of_nat i))) = (j = i)"
  by (simp add: strict_eq_def)

lemma index_of_key_0: "index_of_key ''0'' = Some 0"
  by (simp add: index_of_key_def is_digit_def radix_value_def digit_value_def)

section \<open>The computed score and the exact formula\<close>

text \<open>
  Rounding a number that is not negative and below \<open>2 ^ 1000\<close> to binary64 changes it by at
  most the fraction \<open>2 ^ -53\<close> of it, or by \<open>2 ^ -1075\<close> among the subnormal numbers.
\<close>

lemma pow_powi: "pow b e = of_nat b powi e"
  by (simp add: pow_def power_int_def power_inverse divide_inverse)

lemma pow_pos: "0 < b \<Longrightarrow> 0 < pow b e"
  by (simp add: pow_powi)

lemma pow_nat: "pow b (int n) = of_nat b ^ n"
  by (simp add: pow_def)

lemma pow_neg_nat: "pow b (- int n) = 1 / of_nat b ^ n"
  by (cases "n = 0") (simp_all add: pow_def)

lemma ilog_le:
  assumes "0 < a"
  shows "pow 2 (ilog 2 a) \<le> a"
proof (cases "1 \<le> a")
  case True
  then have n: "0 < nat \<lfloor>a\<rfloor>" by simp
  have "2 ^ (floorlog 2 (nat \<lfloor>a\<rfloor>) - 1) \<le> nat \<lfloor>a\<rfloor>"
    using floorlog_bounds [where b = 2 and x = "nat \<lfloor>a\<rfloor>"] n by simp
  then have "(of_nat (2 ^ (floorlog 2 (nat \<lfloor>a\<rfloor>) - 1)) :: rat) \<le> of_nat (nat \<lfloor>a\<rfloor>)"
    by (simp only: of_nat_le_iff)
  also have "\<dots> \<le> a" using True by simp
  finally have le: "(2::rat) ^ (floorlog 2 (nat \<lfloor>a\<rfloor>) - 1) \<le> a" by simp
  have "0 < floorlog 2 (nat \<lfloor>a\<rfloor>)" using n by (simp add: floorlog_def)
  then have "int (floorlog 2 (nat \<lfloor>a\<rfloor>)) - 1 = int (floorlog 2 (nat \<lfloor>a\<rfloor>) - 1)" by simp
  then have "ilog 2 a = int (floorlog 2 (nat \<lfloor>a\<rfloor>) - 1)"
    using True by (simp only: ilog_def if_True)
  then show ?thesis using le by (simp only: pow_nat) simp
next
  case False
  define m where "m = nat (\<lceil>1 / a\<rceil> - 1)"
  define k where "k = floorlog 2 m"
  have "1 < 1 / a" using False assms by simp
  then have c: "1 \<le> \<lceil>1 / a\<rceil> - 1" by linarith
  have "m < 2 ^ k"
  proof (cases "m = 0")
    case True then show ?thesis by simp
  next
    case False
    then show ?thesis using floorlog_bounds [where b = 2 and x = m] by (simp add: k_def)
  qed
  then have "Suc m \<le> 2 ^ k" by simp
  then have "int (Suc m) \<le> int (2 ^ k)" by (simp only: of_nat_le_iff)
  then have "int m + 1 \<le> 2 ^ k" by simp
  moreover have "int m = \<lceil>1 / a\<rceil> - 1" using c assms by (simp add: m_def)
  ultimately have "\<lceil>1 / a\<rceil> \<le> 2 ^ k" by simp
  then have "1 / a \<le> 2 ^ k" by (simp add: ceiling_le_iff)
  then have "1 / 2 ^ k \<le> a" using assms
    by (simp add: field_simps)
  moreover have "ilog 2 a = - int k"
    using False by (simp only: ilog_def if_False k_def m_def)
  ultimately show ?thesis by (simp only: pow_neg_nat) simp
qed

lemma round_even_near: "\<bar>of_int (round_even z) - z\<bar> \<le> 1 / 2"
proof -
  have "of_int \<lfloor>z\<rfloor> \<le> z" "z < of_int \<lfloor>z\<rfloor> + 1" by linarith+
  then show ?thesis
    by (auto simp: round_even_def Let_def)
qed

lemma round_even_nonneg: "0 \<le> z \<Longrightarrow> 0 \<le> round_even z"
  by (auto simp: round_even_def Let_def)

lemma pow_diff: "pow 2 (e - 52) = pow 2 e / 2 ^ 52"
proof -
  have "(2::rat) powi (e - 52) = 2 powi e / 2 powi 52"
    by (rule power_int_diff) simp
  then show ?thesis by (simp add: pow_powi)
qed

lemma ulp_le:
  assumes "0 < q"
  shows "pow 2 (max (ilog 2 q) (- 1022) - 52) \<le> q / 2 ^ 52 + 1 / 2 ^ 1074"
proof (cases "- 1022 \<le> ilog 2 q")
  case True
  then have "max (ilog 2 q) (- 1022) = ilog 2 q" by simp
  then have "pow 2 (max (ilog 2 q) (- 1022) - 52) = pow 2 (ilog 2 q) / 2 ^ 52"
    by (simp only: pow_diff)
  also have "\<dots> \<le> q / 2 ^ 52"
    using ilog_le [OF assms] by (simp add: divide_right_mono)
  finally show ?thesis by simp
next
  case False
  then have "max (ilog 2 q) (- 1022) - 52 = - int 1074" by simp
  then have "pow 2 (max (ilog 2 q) (- 1022) - 52) = 1 / 2 ^ 1074"
    by (simp only: pow_neg_nat) simp
  then show ?thesis using assms by simp
qed

lemma rnd64_near:
  assumes "0 \<le> q" "q \<le> 2 ^ 1000"
  shows "\<exists>v. rnd64 q = Fin v \<and> 0 \<le> v \<and> \<bar>v - q\<bar> \<le> q / 2 ^ 53 + 1 / 2 ^ 1075"
proof (cases "q = 0")
  case True
  then show ?thesis by (simp add: rnd64_def)
next
  case False
  with assms have q: "0 < q" by simp
  define ulp where "ulp = pow 2 (max (ilog 2 q) (- 1022) - 52)"
  define v where "v = of_int (round_even (q / ulp)) * ulp"
  have ulp: "0 < ulp" by (simp add: ulp_def pow_pos)
  have ulp_le: "ulp \<le> q / 2 ^ 52 + 1 / 2 ^ 1074"
    unfolding ulp_def by (rule ulp_le [OF q])
  have "v - q = (of_int (round_even (q / ulp)) - q / ulp) * ulp"
    using ulp by (simp add: v_def field_simps)
  then have "\<bar>v - q\<bar> = \<bar>of_int (round_even (q / ulp)) - q / ulp\<bar> * ulp"
    using ulp by (simp add: abs_mult)
  also have "\<dots> \<le> 1 / 2 * ulp"
    using round_even_near [of "q / ulp"] ulp by (intro mult_right_mono) simp_all
  finally have near: "\<bar>v - q\<bar> \<le> ulp / 2" by simp
  have near': "\<bar>v - q\<bar> \<le> q / 2 ^ 53 + 1 / 2 ^ 1075"
    using near ulp_le by simp
  have "0 \<le> round_even (q / ulp)"
    using q ulp by (intro round_even_nonneg) simp
  then have v0: "0 \<le> v" using ulp by (simp add: v_def)
  have "v \<le> q + q / 2 ^ 53 + 1 / 2 ^ 1075" using near' by linarith
  also have "\<dots> < 2 ^ 1024" using assms(2) by simp
  finally have "\<not> pow 2 1024 \<le> v" by (simp add: pow_def)
  then have "rnd64 q = Fin v"
    using q by (simp add: rnd64_def Let_def ulp_def [symmetric] v_def [symmetric])
  with v0 near' show ?thesis by blast
qed

text \<open>
  The five roundings of the score, and those of its two literals, add up to less than
  \<open>(rating + percent + 1) / 2 ^ 50\<close>.
\<close>

lemma sum_lower:
  fixes x p t d :: rat
  assumes "6 * x / 5 + p / 25 - (5 * x / 2 ^ 53 + p / 2 ^ 55 + 1 / 2 ^ 1068) \<le> t"
    and "t - (t / 2 ^ 53 + 1 / 2 ^ 1075) \<le> d" and "0 \<le> x" "0 \<le> p"
  shows "6 * x / 5 + p / 25 - (x + p + 1) / 2 ^ 50 \<le> d"
proof -
  let ?lo = "6 * x / 5 + p / 25 - (5 * x / 2 ^ 53 + p / 2 ^ 55 + 1 / 2 ^ 1068)"
  have "?lo * (1 - 1 / 2 ^ 53) \<le> t * (1 - 1 / 2 ^ 53)"
    using assms(1) by (intro mult_right_mono) simp_all
  moreover have "t * (1 - 1 / 2 ^ 53) - 1 / 2 ^ 1075 \<le> d"
    using assms(2) by (simp add: algebra_simps)
  moreover have "?lo * (1 - 1 / 2 ^ 53) - 1 / 2 ^ 1075
                 - (6 * x / 5 + p / 25 - (x + p + 1) / 2 ^ 50)
       = x * (1 / 2 ^ 50 - 6 / 5 / 2 ^ 53 - 5 / 2 ^ 53 * (1 - 1 / 2 ^ 53))
       + p * (1 / 2 ^ 50 - 1 / 25 / 2 ^ 53 - 1 / 2 ^ 55 * (1 - 1 / 2 ^ 53))
       + (1 / 2 ^ 50 - 1 / 2 ^ 1068 * (1 - 1 / 2 ^ 53) - 1 / 2 ^ 1075)"
    by (simp add: algebra_simps)
  moreover have "0 \<le> x * (1 / 2 ^ 50 - 6 / 5 / 2 ^ 53 - 5 / 2 ^ 53 * (1 - 1 / 2 ^ 53))"
    using assms(3) by (intro mult_nonneg_nonneg) simp_all
  moreover have "0 \<le> p * (1 / 2 ^ 50 - 1 / 25 / 2 ^ 53 - 1 / 2 ^ 55 * (1 - 1 / 2 ^ 53))"
    using assms(4) by (intro mult_nonneg_nonneg) simp_all
  moreover have "(0::rat) \<le> 1 / 2 ^ 50 - 1 / 2 ^ 1068 * (1 - 1 / 2 ^ 53) - 1 / 2 ^ 1075"
    by simp
  ultimately show ?thesis by linarith
qed

lemma sum_upper:
  fixes x p t d :: rat
  assumes "t \<le> 6 * x / 5 + p / 25 + (5 * x / 2 ^ 53 + p / 2 ^ 55 + 1 / 2 ^ 1068)"
    and "d \<le> t + (t / 2 ^ 53 + 1 / 2 ^ 1075)" and "0 \<le> x" "0 \<le> p"
  shows "d \<le> 6 * x / 5 + p / 25 + (x + p + 1) / 2 ^ 50"
proof -
  let ?hi = "6 * x / 5 + p / 25 + (5 * x / 2 ^ 53 + p / 2 ^ 55 + 1 / 2 ^ 1068)"
  have "t * (1 + 1 / 2 ^ 53) \<le> ?hi * (1 + 1 / 2 ^ 53)"
    using assms(1) by (intro mult_right_mono) simp_all
  moreover have "d \<le> t * (1 + 1 / 2 ^ 53) + 1 / 2 ^ 1075"
    using assms(2) by (simp add: algebra_simps)
  moreover have "6 * x / 5 + p / 25 + (x + p + 1) / 2 ^ 50
                 - (?hi * (1 + 1 / 2 ^ 53) + 1 / 2 ^ 1075)
       = x * (1 / 2 ^ 50 - 6 / 5 / 2 ^ 53 - 5 / 2 ^ 53 * (1 + 1 / 2 ^ 53))
       + p * (1 / 2 ^ 50 - 1 / 25 / 2 ^ 53 - 1 / 2 ^ 55 * (1 + 1 / 2 ^ 53))
       + (1 / 2 ^ 50 - 1 / 2 ^ 1068 * (1 + 1 / 2 ^ 53) - 1 / 2 ^ 1075)"
    by (simp add: algebra_simps)
  moreover have "0 \<le> x * (1 / 2 ^ 50 - 6 / 5 / 2 ^ 53 - 5 / 2 ^ 53 * (1 + 1 / 2 ^ 53))"
    using assms(3) by (intro mult_nonneg_nonneg) simp_all
  moreover have "0 \<le> p * (1 / 2 ^ 50 - 1 / 25 / 2 ^ 53 - 1 / 2 ^ 55 * (1 + 1 / 2 ^ 53))"
    using assms(4) by (intro mult_nonneg_nonneg) simp_all
  moreover have "(0::rat) \<le> 1 / 2 ^ 50 - 1 / 2 ^ 1068 * (1 + 1 / 2 ^ 53) - 1 / 2 ^ 1075"
    by simp
  ultimately show ?thesis by linarith
qed

lemma rnd64_between:
  assumes "0 \<le> q" "q \<le> 2 ^ 1000"
  shows "\<exists>v. rnd64 q = Fin v \<and> 0 \<le> v \<and> q - (q / 2 ^ 53 + 1 / 2 ^ 1075) \<le> v \<and>
             v \<le> q + (q / 2 ^ 53 + 1 / 2 ^ 1075)"
  using rnd64_near [OF assms] by (auto simp: abs_le_iff)

lemma score_near:
  assumes x: "0 \<le> x" "x \<le> 10 ^ 15" and p: "0 \<le> p" "p \<le> 10 ^ 15"
  shows "\<exists>d. jadd (jmul (jmul (jdiv (Fin x) (Fin 5)) (Fin 10)) (rnd64 (6 / 10)))
                   (jmul (jdiv (Fin p) (Fin 10)) (rnd64 (4 / 10))) = Fin d \<and>
             0 \<le> d \<and> \<bar>d - exact_score x p\<bar> \<le> (x + p + 1) / 2 ^ 50"
proof -
  obtain t1 where t1: "rnd64 (x / 5) = Fin t1" "0 \<le> t1"
      "x / 5 - (x / 5 / 2 ^ 53 + 1 / 2 ^ 1075) \<le> t1" "t1 \<le> x / 5 + (x / 5 / 2 ^ 53 + 1 / 2 ^ 1075)"
    using rnd64_between [of "x / 5"] x by auto
  have "t1 * 10 \<le> 2 ^ 1000" using t1(4) x(2) by simp
  then obtain t2 where t2: "rnd64 (t1 * 10) = Fin t2" "0 \<le> t2"
      "t1 * 10 - (t1 * 10 / 2 ^ 53 + 1 / 2 ^ 1075) \<le> t2"
      "t2 \<le> t1 * 10 + (t1 * 10 / 2 ^ 53 + 1 / 2 ^ 1075)"
    using rnd64_between [of "t1 * 10"] t1(2) by auto
  have t2x: "2 * x - (5 * x / 2 ^ 53 + 1 / 2 ^ 1070) \<le> t2"
      "t2 \<le> 2 * x + (5 * x / 2 ^ 53 + 1 / 2 ^ 1070)"
    using t1(3,4) t2(3,4) x(1) by simp_all
  define c6 :: rat where "c6 = 5404319552844595 / 9007199254740992"
  define c4 :: rat where "c4 = 3602879701896397 / 9007199254740992"
  have "t2 * c6 \<le> 2 ^ 1000" "0 \<le> t2 * c6"
    using t2(2) t2x(2) x(2) by (simp_all add: c6_def)
  then obtain t3 where t3: "rnd64 (t2 * c6) = Fin t3" "0 \<le> t3"
      "t2 * c6 - (t2 * c6 / 2 ^ 53 + 1 / 2 ^ 1075) \<le> t3"
      "t3 \<le> t2 * c6 + (t2 * c6 / 2 ^ 53 + 1 / 2 ^ 1075)"
    using rnd64_between [of "t2 * c6"] by auto
  have t3x: "6 * x / 5 - (5 * x / 2 ^ 53 + 1 / 2 ^ 1069) \<le> t3"
      "t3 \<le> 6 * x / 5 + (5 * x / 2 ^ 53 + 1 / 2 ^ 1069)"
    using t2x t3(3,4) x(1) by (simp_all add: c6_def)
  obtain s1 where s1: "rnd64 (p / 10) = Fin s1" "0 \<le> s1"
      "p / 10 - (p / 10 / 2 ^ 53 + 1 / 2 ^ 1075) \<le> s1"
      "s1 \<le> p / 10 + (p / 10 / 2 ^ 53 + 1 / 2 ^ 1075)"
    using rnd64_between [of "p / 10"] p by auto
  have "s1 * c4 \<le> 2 ^ 1000" "0 \<le> s1 * c4"
    using s1(2,4) p(2) by (simp_all add: c4_def)
  then obtain s2 where s2: "rnd64 (s1 * c4) = Fin s2" "0 \<le> s2"
      "s1 * c4 - (s1 * c4 / 2 ^ 53 + 1 / 2 ^ 1075) \<le> s2"
      "s2 \<le> s1 * c4 + (s1 * c4 / 2 ^ 53 + 1 / 2 ^ 1075)"
    using rnd64_between [of "s1 * c4"] by auto
  have s2p: "p / 25 - (p / 2 ^ 55 + 1 / 2 ^ 1070) \<le> s2"
      "s2 \<le> p / 25 + (p / 2 ^ 55 + 1 / 2 ^ 1070)"
    using s1(3,4) s2(3,4) p(1) by (simp_all add: c4_def)
  have "t3 + s2 \<le> 2 ^ 1000"
    using t3x(2) s2p(2) x(2) p(2) by simp
  then obtain d where d: "rnd64 (t3 + s2) = Fin d" "0 \<le> d"
      "t3 + s2 - ((t3 + s2) / 2 ^ 53 + 1 / 2 ^ 1075) \<le> d"
      "d \<le> t3 + s2 + ((t3 + s2) / 2 ^ 53 + 1 / 2 ^ 1075)"
    using rnd64_between [of "t3 + s2"] t3(2) s2(2) by auto
  have t3': "rnd64 (t2 * 5404319552844595 / 9007199254740992) = Fin t3"
    using t3(1) by (simp add: c6_def)
  have s2': "rnd64 (s1 * 3602879701896397 / 9007199254740992) = Fin s2"
    using s2(1) by (simp add: c4_def)
  have eq: "jadd (jmul (jmul (jdiv (Fin x) (Fin 5)) (Fin 10)) (rnd64 (6 / 10)))
                 (jmul (jdiv (Fin p) (Fin 10)) (rnd64 (4 / 10))) = Fin d"
    by (simp add: jadd_def jmul_def jdiv_def t1(1) t2(1) rnd64_3_5 rnd64_2_5
        t3' s1(1) s2' d(1))
  have sum: "6 * x / 5 + p / 25 - (5 * x / 2 ^ 53 + p / 2 ^ 55 + 1 / 2 ^ 1068) \<le> t3 + s2"
      "t3 + s2 \<le> 6 * x / 5 + p / 25 + (5 * x / 2 ^ 53 + p / 2 ^ 55 + 1 / 2 ^ 1068)"
    using t3x s2p by simp_all
  have e: "exact_score x p = 6 * x / 5 + p / 25"
    by (simp add: exact_score_def)
  have "exact_score x p - (x + p + 1) / 2 ^ 50 \<le> d"
    unfolding e by (rule sum_lower [OF sum(1) d(3) x(1) p(1)])
  moreover have "d \<le> exact_score x p + (x + p + 1) / 2 ^ 50"
    unfolding e by (rule sum_upper [OF sum(2) d(4) x(1) p(1)])
  ultimately have "\<bar>d - exact_score x p\<bar> \<le> (x + p + 1) / 2 ^ 50"
    by linarith
  with eq d(2) show ?thesis by blast
qed

text \<open>\<open>toFixed(1)\<close> prints the nearest number of tenths, as \<open>tenths_text\<close> writes it.\<close>

lemma nth_digit: "k < 10 \<Longrightarrow> ''0123456789'' ! k = digit_char k"
proof -
  assume "k < 10"
  then have "k \<in> {0, 1, 2, 3, 4, 5, 6, 7, 8, 9}" by auto
  then show ?thesis by (elim insertE emptyE) (simp_all add: digit_char_def)
qed

lemma digits_decimal: "digits n = decimal n"
proof (induction n rule: digits.induct)
  case (1 n)
  show ?case
  proof (cases "n < 10")
    case True
    then show ?thesis
      by (subst digits.simps, subst decimal.simps) (simp add: nth_digit)
  next
    case False
    then show ?thesis
      using 1 by (subst digits.simps, subst decimal.simps) (simp add: nth_digit)
  qed
qed

lemma digits_small: "n < 10 \<Longrightarrow> digits n = [''0123456789'' ! n]"
  by (subst digits.simps) simp

lemma digits_large:
  "10 \<le> n \<Longrightarrow> digits n = digits (n div 10) @ [''0123456789'' ! (n mod 10)]"
  by (subst digits.simps) simp

lemma digits_nonempty: "digits n \<noteq> []"
  by (cases "n < 10") (simp_all add: digits_small digits_large)

lemma toFixed_tenths:
  assumes "0 \<le> d" "d < 10 ^ 21"
  shows "toFixed (Fin d) 1 = tenths_text (nat \<lfloor>d * 10 + 1 / 2\<rfloor>)"
proof -
  define n where "n = nat \<lfloor>d * 10 + 1 / 2\<rfloor>"
  have d: "\<not> 10 ^ 21 \<le> \<bar>d\<bar>" "\<not> d < 0" "\<bar>d\<bar> = d" using assms by simp_all
  show ?thesis
  proof (cases "n < 10")
    case True
    then show ?thesis
      using d
      by (simp add: toFixed_def n_def [symmetric] digits_small tenths_text_def Let_def
          nth_digit decimal.simps [of 0] digit_char_def)
  next
    case False
    then have "digits n = digits (n div 10) @ [''0123456789'' ! (n mod 10)]"
      by (simp add: digits_large)
    moreover have "''0123456789'' ! (n mod 10) = digit_char (n mod 10)"
      by (simp add: nth_digit)
    moreover have "length (digits (n div 10)) \<noteq> 0"
      using digits_nonempty [of "n div 10"] by simp
    ultimately show ?thesis
      using d
      by (simp add: toFixed_def n_def [symmetric] tenths_text_def Let_def
          digits_decimal [symmetric])
  qed
qed

lemma round_stable:
  fixes y z :: rat
  assumes "\<bar>z - y\<bar> < \<bar>frac y - 1 / 2\<bar>"
  shows "\<lfloor>z + 1 / 2\<rfloor> = round y"
proof -
  define k where "k = \<lfloor>y\<rfloor>"
  have k: "of_int k \<le> y" "y < of_int k + 1" unfolding k_def by linarith+
  have f: "frac y = y - of_int k" by (simp add: frac_def k_def)
  show ?thesis
  proof (cases "frac y < 1 / 2")
    case True
    then have "round y = k" unfolding round_def using k f by (intro floor_unique) simp_all
    moreover have "\<lfloor>z + 1 / 2\<rfloor> = k"
      using assms True k f by (intro floor_unique) (simp_all add: abs_less_iff) 
    ultimately show ?thesis by simp
  next
    case False
    with assms have g: "1 / 2 < frac y" by (cases "frac y = 1 / 2") simp_all
    then have "round y = k + 1" unfolding round_def using k f by (intro floor_unique) simp_all
    moreover have "\<lfloor>z + 1 / 2\<rfloor> = k + 1"
      using assms g k f by (intro floor_unique) (simp_all add: abs_less_iff)
    ultimately show ?thesis by simp
  qed
qed

text \<open>
  So the text of the score is the exact value rounded to one decimal, unless that value is
  as close to a midpoint as the rounding errors are large; and it always is a number of
  tenths next to the exact value.
\<close>

lemma spec_score_rounded:
  assumes x: "0 \<le> x" "x \<le> 10 ^ 15" and p: "0 \<le> p" "p \<le> 10 ^ 15"
  shows "((x + p + 1) / 2 ^ 50 < midpoint_distance (exact_score x p) \<longrightarrow>
            spec_score (Fin x) (Fin p) = one_decimal (exact_score x p)) \<and>
         (\<exists>n. spec_score (Fin x) (Fin p) = tenths_text n \<and>
              \<bar>of_nat n / 10 - exact_score x p\<bar> \<le> 1 / 20 + (x + p + 1) / 2 ^ 50)"
proof -
  define m where "m = (x + p + 1) / 2 ^ 50"
  obtain d where d: "jadd (jmul (jmul (jdiv (Fin x) (Fin 5)) (Fin 10)) (rnd64 (6 / 10)))
                   (jmul (jdiv (Fin p) (Fin 10)) (rnd64 (4 / 10))) = Fin d"
      "0 \<le> d" "\<bar>d - exact_score x p\<bar> \<le> m"
    unfolding m_def using score_near [OF assms] by blast
  have "m \<le> 2" using x p by (simp add: m_def)
  moreover have "exact_score x p \<le> 2 * 10 ^ 15"
    using x p by (simp add: exact_score_def)
  ultimately have "d < 10 ^ 21" using d(3) by simp
  then have shown: "spec_score (Fin x) (Fin p) = tenths_text (nat \<lfloor>d * 10 + 1 / 2\<rfloor>)"
    unfolding spec_score_def d(1) by (rule toFixed_tenths [OF d(2)])
  define n where "n = nat \<lfloor>d * 10 + 1 / 2\<rfloor>"
  define k :: rat where "k = of_int \<lfloor>d * 10 + 1 / 2\<rfloor>"
  have "0 \<le> \<lfloor>d * 10 + 1 / 2\<rfloor>" using d(2) by simp
  then have "of_nat n = k"
    by (simp add: n_def k_def)
  moreover have "k \<le> d * 10 + 1 / 2" "d * 10 + 1 / 2 < k + 1"
    unfolding k_def by linarith+
  ultimately have "\<bar>of_nat n / 10 - d\<bar> \<le> 1 / 20" by linarith
  with d(3) have "\<bar>of_nat n / 10 - exact_score x p\<bar> \<le> 1 / 20 + m" by linarith
  with shown have second: "\<exists>n. spec_score (Fin x) (Fin p) = tenths_text n \<and>
      \<bar>of_nat n / 10 - exact_score x p\<bar> \<le> 1 / 20 + (x + p + 1) / 2 ^ 50"
    unfolding n_def m_def by blast
  have first: "spec_score (Fin x) (Fin p) = one_decimal (exact_score x p)"
    if "m < midpoint_distance (exact_score x p)"
  proof -
    have "\<bar>d * 10 - 10 * exact_score x p\<bar> = \<bar>10 * (d - exact_score x p)\<bar>"
      by (simp add: algebra_simps)
    also have "\<dots> = 10 * \<bar>d - exact_score x p\<bar>"
      by (subst abs_mult) simp
    also have "\<dots> \<le> 10 * m" using d(3) by simp
    also have "\<dots> < \<bar>frac (10 * exact_score x p) - 1 / 2\<bar>"
      using that by (simp add: midpoint_distance_def)
    finally have "\<lfloor>d * 10 + 1 / 2\<rfloor> = round (10 * exact_score x p)"
      by (rule round_stable)
    with shown show ?thesis by (simp add: one_decimal_def)
  qed
  from first second show ?thesis unfolding m_def by blast
qed

lemma spec_score_midpoint: "spec_score (Fin (9 / 2)) (Fin (15 / 4)) = ''5.5''"
  by (simp add: spec_score_def rnd64_3_5 rnd64_2_5 jadd_def jmul_def jdiv_def rnd64_def
      ilog_def pow_def round_even_def toFixed_def)

lemma one_decimal_midpoint: "one_decimal (exact_score (9 / 2) (15 / 4)) = ''5.6''"
  by (simp add: one_decimal_def exact_score_def tenths_text_def round_def decimal.simps
      digit_char_def)

lemma one_decimal_example: "one_decimal (exact_score (9 / 2) 80) = ''8.6''"
  by (simp add: one_decimal_def exact_score_def tenths_text_def round_def decimal.simps
      digit_char_def)

lemma midpoint_distance_example: "midpoint_distance (exact_score (9 / 2) 80) = 1 / 20"
  by (simp add: midpoint_distance_def exact_score_def frac_def)


section \<open>Running statements\<close>

lemma bindE_Inr [simp]: "bindE (Inr x) k = k x"
  by (simp add: bindE_def)

lemma bindE_Inl [simp]: "bindE (Inl e) k = Inl e"
  by (simp add: bindE_def)

lemma bind_expr_Inr [simp]: "bind (expr (Inr x)) k s = k x s"
  by (simp add: bind_def expr_def)

lemma bind_expr_Inl [simp]: "bind (expr (Inl e)) k s = (Inl e, s)"
  by (simp add: bind_def expr_def)

lemma andThen_modify [simp]: "andThen (modify g) n s = n (g s)"
  by (simp add: andThen_def bind_def modify_def)

lemma andThen_ret: "andThen (ret x) n = n"
  by (rule ext) (simp add: andThen_def bind_def ret_def)

lemma andThen_assoc: "andThen (andThen a b) c = andThen a (andThen b c)"
  by (rule ext) (simp add: andThen_def bind_def split: prod.splits sum.splits)

lemma block_Nil [simp]: "block [] s = (Inr (), s)"
  by (simp add: ret_def)

lemma block_Cons:
  "block (m # ms) s = (case m s of (Inl e, s') \<Rightarrow> (Inl e, s') | (Inr u, s') \<Rightarrow> block ms s')"
  by (simp add: andThen_def bind_def)

lemma block_block_eq: "block (block ms' # ms) = block (ms' @ ms)"
  by (induction ms') (simp_all add: andThen_ret andThen_assoc)

declare block.simps [simp del]

lemma block_block [simp]: "block (block ms' # ms) s = block (ms' @ ms) s"
  by (simp add: block_block_eq)

lemma block_modify [simp]: "block (modify g # ms) s = block ms (g s)"
  by (simp add: block_Cons modify_def)

lemma block_bind_expr_Inr [simp]: "block (bind (expr (Inr x)) k # ms) s = block (k x # ms) s"
  by (simp add: block_Cons)

lemma block_bind_expr_Inl [simp]: "block (bind (expr (Inl e)) k # ms) s = (Inl e, s)"
  by (simp add: block_Cons)

subsection \<open>What a statement leaves unchanged\<close>

lemma keeps_expr [simp]: "keeps f (expr r)"
  by (simp add: keeps_def expr_def)

lemma keeps_ret [simp]: "keeps f (ret x)"
  by (simp add: keeps_def ret_def)

lemma keeps_modify: "(\<And>s. f (g s) = f s) \<Longrightarrow> keeps f (modify g)"
  by (simp add: keeps_def modify_def)

lemma keeps_bind: "keeps f m \<Longrightarrow> (\<And>x. keeps f (k x)) \<Longrightarrow> keeps f (bind m k)"
  by (auto simp: keeps_def bind_def split: prod.splits sum.splits) (metis snd_conv)+

lemma keeps_andThen: "keeps f m \<Longrightarrow> keeps f n \<Longrightarrow> keeps f (andThen m n)"
  by (simp add: andThen_def keeps_bind)

lemma keeps_block: "(\<And>m. m \<in> set ms \<Longrightarrow> keeps f m) \<Longrightarrow> keeps f (block ms)"
  by (induction ms) (simp_all add: keeps_andThen block.simps)

lemma block_keeps: "(\<And>m. m \<in> set ms \<Longrightarrow> keeps f m) \<Longrightarrow> f (snd (block ms s)) = f s"
  using keeps_block [of ms f] by (simp add: keeps_def)

lemma keeps_populateVerdictList:
  "(\<And>g s. f (el g s) = f s) \<Longrightarrow> keeps f (populateVerdictList el t items ic)"
  unfolding populateVerdictList_def Let_def
  by (intro keeps_block) (auto intro!: keeps_modify keeps_bind)

lemma keeps_populateVerdictList_p0:
  "(\<And>g s. f (el g s) = f s) \<Longrightarrow> keeps f (populateVerdictList_p0 el t items ic)"
  unfolding populateVerdictList_p0_def Let_def
  by (intro keeps_block) (auto intro!: keeps_modify keeps_bind)

section \<open>Reading the response\<close>

lemma truthy_readable: "truthy v \<Longrightarrow> \<exists>x. get v k = Inr x"
  by (cases v) auto

lemma truthy_public_opinion:
  "get data ''public_opinion'' = Inr po \<Longrightarrow> truthy po \<Longrightarrow> truthy data"
  by (cases data) (auto simp: index_of_key_def is_digit_def)

lemma map_of_replace_other:
  "k \<noteq> k' \<Longrightarrow>
   map_of (map (\<lambda>(a, v). if a = k' then (a, x) else (a, v)) fs) k = map_of fs k"
  by (induction fs) auto

lemma get_put_other: "k \<noteq> k' \<Longrightarrow> get (put v k' x) k = get v k"
  by (cases v) (auto simp add: map_of_replace_other map_add_def split: option.splits)

lemma hd_split_char: "split_char c s = takeWhile (\<lambda>x. x \<noteq> c) s # tl (split_char c s)"
  by (induction s) (auto split: list.splits)

lemma parsed_rating_Str:
  assumes "get data ''rating'' = Inr (Str r)" "r \<noteq> []"
  shows "parsed_rating data = Inr (parseFloat (takeWhile (\<lambda>c. c \<noteq> CHR '' '') r))"
proof -
  have "split_char (CHR '' '') r \<noteq> []"
    by (subst hd_split_char) simp
  then obtain p ps where ps: "split_char (CHR '' '') r = p # ps"
    by (cases "split_char (CHR '' '') r") auto
  with hd_split_char [of "CHR '' ''" r] have "p = takeWhile (\<lambda>c. c \<noteq> CHR '' '') r"
    by simp
  with assms ps show ?thesis
    by (simp add: parsed_rating_def lor_def index_of_key_0)
qed

lemma parsed_rating_falsy:
  assumes "get data ''rating'' = Inr v" "\<not> truthy v"
  shows "parsed_rating data = Inr (Fin 0)"
  using assms
  by (simp add: parsed_rating_def lor_def index_of_key_0 parse_eval rnd64_def)

lemma parsed_rating_absent:
  "get data ''rating'' = Inr Undefined \<Longrightarrow> parsed_rating data = Inr (Fin 0)"
  by (simp add: parsed_rating_falsy)

lemma parsed_rating_put: "parsed_rating (put v ''url'' x) = parsed_rating v"
  by (simp add: parsed_rating_def get_put_other)

lemma parsed_rating_example:
  "get data ''rating'' = Inr (Str ''4.5 out of 5'') \<Longrightarrow> parsed_rating data = Inr (Fin (9 / 2))"
  by (simp add: parsed_rating_Str parseFloat_4_5)

lemma calculateScore_eq:
  assumes "parsed_rating data = Inr rating" "get data ''public_opinion'' = Inr po"
    "get po ''positive_percent'' = Inr p"
  shows "calculateScore data = Inr (Str (spec_score rating (to_number (lor p (Num (Fin 0))))))"
  using assms by (simp add: calculateScore_def spec_score_def)

section \<open>The score that is shown\<close>

lemma displayResults_score:
  assumes os: "get data ''overall_score'' = Inr os" "\<not> truthy os"
    and po: "get data ''public_opinion'' = Inr po" "truthy po"
    and r: "parsed_rating data = Inr rating"
    and p: "get po ''positive_percent'' = Inr p"
  shows "scoreEl_text (snd (displayResults data st)) =
           spec_score rating (to_number (lor p (Num (Fin 0)))) @ '' / 10''"
proof -
  have d: "truthy data" using po by (rule truthy_public_opinion)
  obtain url where url: "get data ''product_url'' = Inr url"
    using truthy_readable [OF d] by blast
  obtain name where name: "get data ''product_name'' = Inr name"
    using truthy_readable [OF d] by blast
  let ?d = "put data ''url'' (lor url (Str []))"
  have cs: "calculateScore ?d = Inr (Str (spec_score rating (to_number (lor p (Num (Fin 0))))))"
    by (rule calculateScore_eq [where po = po])
      (simp_all add: parsed_rating_put get_put_other r po p)
  show ?thesis
    using d
    apply (simp add: displayResults_def po url name os cs get_put_other Let_def)
    apply (subst block_keeps [where f = scoreEl_text])
     apply (auto intro!: keeps_bind keeps_modify keeps_block keeps_populateVerdictList
        simp: Let_def)
    done
qed

lemma displayResults_p0_score:
  assumes os: "get data ''overall_score'' = Inr os" "\<not> truthy os"
    and po: "get data ''public_opinion'' = Inr po" "truthy po"
    and r: "parsed_rating data = Inr rating"
    and p: "get po ''positive_percent'' = Inr p"
  shows "scoreEl_text (snd (displayResults_p0 data st)) =
           spec_score rating (to_number (lor p (Num (Fin 0)))) @ '' / 10''"
proof -
  have d: "truthy data" using po by (rule truthy_public_opinion)
  obtain name where name: "get data ''product_name'' = Inr name"
    using truthy_readable [OF d] by blast
  show ?thesis
    using d
    apply (simp add: displayResults_p0_def po name os r p spec_score_def Let_def)
    apply (subst block_keeps [where f = scoreEl_text])
     apply (auto intro!: keeps_bind keeps_modify keeps_block keeps_populateVerdictList_p0
        simp: Let_def)
    done
qed

section \<open>The verdict lists\<close>

lemma example_of_text: "example_of (Arr (Str ex # others)) = Inr (Str (spec_quote ex))"
  by (simp add: example_of_def index_of_key_0 jgreater_Fin spec_quote_def)

text \<open>
  The quote of an entry with a text as its first example. In \<open>part_000\<close> it is the text
  content of the \<open>blockquote\<close>; in the first script it is written into the markup that
  the list item is assigned.
\<close>

lemma example_quote_p0:
  assumes \<open>get item ''keyword'' = Inr keyword\<close>
    and \<open>get item ''examples'' = Inr (Arr (Str ex # others))\<close>
  shows \<open>verdict_li_p0 item =
           Inr (Element ''li'' []
                 [Element ''span'' ''keyword'' (text_children (text_of keyword)),
                  Element ''blockquote'' ''example-quote''
                    [Text (''"'' @ spec_quote ex @ ''"'')]])\<close>
  using assms
  by (simp add: verdict_li_p0_def example_of_text jgreater_Fin length_positive Let_def)

lemma example_quote_markup:
  assumes \<open>get item ''keyword'' = Inr keyword\<close>
    and \<open>get item ''examples'' = Inr (Arr (Str ex # others))\<close>
  shows \<open>verdict_li item =
           Inr (Element ''li'' []
                 [Reparsed [Markup (''<span class="keyword">'' @ to_string keyword @ ''</span>'')]
                    (''<blockquote class="example-quote">"'' @ spec_quote ex
                     @ ''"</blockquote>'')])\<close>
  using assms
  by (simp add: verdict_li_def example_of_text jgreater_Fin length_positive Let_def)

lemma example_of_texts:
  "list_all is_text es \<Longrightarrow> es \<noteq> [] \<Longrightarrow> \<exists>q. example_of (Arr es) = Inr q"
  by (cases es; cases "hd es") (auto simp: is_text_def example_of_text)

lemma wf_entry_li: "wf_entry item \<Longrightarrow> \<exists>li. verdict_li item = Inr li"
  by (cases item)
    (auto simp: wf_entry_def verdict_li_def Let_def jgreater_Fin
      dest: example_of_texts split: option.splits jsval.splits)

lemma wf_entry_li_p0: "wf_entry item \<Longrightarrow> \<exists>li. verdict_li_p0 item = Inr li"
  by (cases item)
    (auto simp: wf_entry_def verdict_li_p0_def Let_def jgreater_Fin
      dest: example_of_texts split: option.splits jsval.splits)

lemma mapE_all:
  assumes "\<And>x. x \<in> set xs \<Longrightarrow> \<exists>y. f x = Inr y"
  shows "\<exists>ys. mapE f xs = Inr ys \<and> length ys = length xs \<and>
              (\<forall>i<length xs. f (xs ! i) = Inr (ys ! i))"
  using assms
proof (induction xs)
  case Nil
  then show ?case by simp
next
  case (Cons x xs)
  from Cons.prems obtain y where y: "f x = Inr y" by auto
  from Cons obtain ys where ys: "mapE f xs = Inr ys" "length ys = length xs"
    "\<forall>i<length xs. f (xs ! i) = Inr (ys ! i)"
    by auto
  have "\<forall>i<length (x # xs). f ((x # xs) ! i) = Inr ((y # ys) ! i)"
    using y ys(3) by (auto simp: nth_Cons split: nat.splits)
  with y ys(1,2) show ?case by simp
qed

lemma mapE_first4:
  assumes "4 < length xs" and "\<And>x. x \<in> set (take 4 xs) \<Longrightarrow> \<exists>y. f x = Inr y"
  shows "\<exists>lis. mapE f (take 4 xs) = Inr lis \<and> length lis = 4 \<and>
               (\<forall>i<4. f (xs ! i) = Inr (lis ! i))"
proof -
  from mapE_all [of "take 4 xs" f] assms(2)
  obtain lis where lis: "mapE f (take 4 xs) = Inr lis" "length lis = length (take 4 xs)"
    "\<forall>i<length (take 4 xs). f (take 4 xs ! i) = Inr (lis ! i)"
    by blast
  with assms(1) show ?thesis by (auto simp: min_def)
qed

lemma verdict_ul_Arr:
  "xs \<noteq> [] \<Longrightarrow>
   verdict_ul (Arr xs) =
     bindE (mapE verdict_li (take 4 xs)) (\<lambda>lis. Inr (Element ''ul'' ''verdict-list'' lis))"
  by (simp add: verdict_ul_def strict_eq_def)

lemma verdict_ul_p0_Arr:
  "xs \<noteq> [] \<Longrightarrow>
   verdict_ul_p0 (Arr xs) =
     bindE (mapE verdict_li_p0 (take 4 xs)) (\<lambda>lis. Inr (Element ''ul'' ''verdict-list'' lis))"
  by (simp add: verdict_ul_p0_def strict_eq_def)

lemma populateVerdictList_children:
  assumes "verdict_ul items = Inr ul" "\<And>g s. el (el_update g s) = g (el s)"
  shows "\<exists>h. el (snd (populateVerdictList el_update title items iconClass st)) = [h, ul]"
  using assms by (simp add: populateVerdictList_def Let_def)

lemma populateVerdictList_p0_children:
  assumes "verdict_ul_p0 items = Inr ul" "\<And>g s. el (el_update g s) = g (el s)"
  shows "\<exists>h. el (snd (populateVerdictList_p0 el_update title items iconClass st)) = [h, ul]"
  using assms by (simp add: populateVerdictList_p0_def Let_def)

lemma list_html_Arr:
  "xs \<noteq> [] \<Longrightarrow>
   list_html heading (Arr xs) =
     Inr (''<h4>'' @ heading @ ''</h4><ul>''
          @ concat (map (\<lambda>x. ''<li>'' @ to_string x @ ''</li>'') xs) @ ''</ul>'')"
  by (cases xs) (simp_all add: list_html_def lor_def jgreater_Fin length_positive Let_def)

lemma list_html_empty:
  "list_html heading (Arr []) = Inr (''<h4>'' @ heading @ ''</h4><ul><li>N/A</li></ul>'')"
  by (simp add: list_html_def lor_def jgreater_Fin Let_def)

text \<open>
  The two scripts that build their lists with \<open>populateVerdictList\<close> show the first four
  entries of a longer list, in their order.
\<close>

lemma verdict_list_first_four:
  assumes "4 < length xs" and "\<forall>x\<in>set (take 4 xs). wf_entry x"
  shows "(\<exists>lis. length lis = 4 \<and> (\<forall>i<4. verdict_li (xs ! i) = Inr (lis ! i)) \<and>
            verdict_ul (Arr xs) = Inr (Element ''ul'' ''verdict-list'' lis) \<and>
            (\<exists>h. prosListEl (snd (populateVerdictList prosListEl_update title (Arr xs)
                                   iconClass st)) = [h, Element ''ul'' ''verdict-list'' lis]) \<and>
            (\<exists>h. consListEl (snd (populateVerdictList consListEl_update title (Arr xs)
                                   iconClass st)) = [h, Element ''ul'' ''verdict-list'' lis])) \<and>
         (\<exists>lis. length lis = 4 \<and> (\<forall>i<4. verdict_li_p0 (xs ! i) = Inr (lis ! i)) \<and>
            verdict_ul_p0 (Arr xs) = Inr (Element ''ul'' ''verdict-list'' lis) \<and>
            (\<exists>h. prosListEl (snd (populateVerdictList_p0 prosListEl_update title (Arr xs)
                                   iconClass st)) = [h, Element ''ul'' ''verdict-list'' lis]) \<and>
            (\<exists>h. consListEl (snd (populateVerdictList_p0 consListEl_update title (Arr xs)
                                   iconClass st)) = [h, Element ''ul'' ''verdict-list'' lis]))"
proof -
  from assms(1) have ne: "xs \<noteq> []" by auto
  obtain lis where lis: "mapE verdict_li (take 4 xs) = Inr lis" "length lis = 4"
    "\<forall>i<4. verdict_li (xs ! i) = Inr (lis ! i)"
    using mapE_first4 [OF assms(1), of verdict_li] assms(2) wf_entry_li by blast
  obtain lis' where lis': "mapE verdict_li_p0 (take 4 xs) = Inr lis'" "length lis' = 4"
    "\<forall>i<4. verdict_li_p0 (xs ! i) = Inr (lis' ! i)"
    using mapE_first4 [OF assms(1), of verdict_li_p0] assms(2) wf_entry_li_p0 by blast
  have ul: "verdict_ul (Arr xs) = Inr (Element ''ul'' ''verdict-list'' lis)"
    using ne lis(1) by (simp add: verdict_ul_Arr)
  have ul': "verdict_ul_p0 (Arr xs) = Inr (Element ''ul'' ''verdict-list'' lis')"
    using ne lis'(1) by (simp add: verdict_ul_p0_Arr)
  have "\<exists>lis. length lis = 4 \<and> (\<forall>i<4. verdict_li (xs ! i) = Inr (lis ! i)) \<and>
            verdict_ul (Arr xs) = Inr (Element ''ul'' ''verdict-list'' lis) \<and>
            (\<exists>h. prosListEl (snd (populateVerdictList prosListEl_update title (Arr xs)
                                   iconClass st)) = [h, Element ''ul'' ''verdict-list'' lis]) \<and>
            (\<exists>h. consListEl (snd (populateVerdictList consListEl_update title (Arr xs)
                                   iconClass st)) = [h, Element ''ul'' ''verdict-list'' lis])"
    using lis(2,3) ul
      populateVerdictList_children [OF ul, of prosListEl prosListEl_update title iconClass st]
      populateVerdictList_children [OF ul, of consListEl consListEl_update title iconClass st]
    by (intro exI [of _ lis]) simp
  moreover
  have "\<exists>lis. length lis = 4 \<and> (\<forall>i<4. verdict_li_p0 (xs ! i) = Inr (lis ! i)) \<and>
            verdict_ul_p0 (Arr xs) = Inr (Element ''ul'' ''verdict-list'' lis) \<and>
            (\<exists>h. prosListEl (snd (populateVerdictList_p0 prosListEl_update title (Arr xs)
                                   iconClass st)) = [h, Element ''ul'' ''verdict-list'' lis]) \<and>
            (\<exists>h. consListEl (snd (populateVerdictList_p0 consListEl_update title (Arr xs)
                                   iconClass st)) = [h, Element ''ul'' ''verdict-list'' lis])"
    using lis'(2,3) ul'
      populateVerdictList_p0_children [OF ul', of prosListEl prosListEl_update title iconClass st]
      populateVerdictList_p0_children [OF ul', of consListEl consListEl_update title iconClass st]
    by (intro exI [of _ lis']) simp
  ultimately show ?thesis by blast
qed

section \<open>The fields that have a default\<close>

text \<open>
  When the two objects \<open>public_opinion\<close> and \<open>pros_cons_panel\<close> are there, every field that is
  missing is replaced: the name, the rating, the percentage, the summary and the two lists.
  Each script then returns normally and shows the results.
\<close>

lemma rnd64_0: "rnd64 0 = Fin 0"
  by (simp add: rnd64_def)

lemma spec_score_zero: "spec_score (Fin 0) (Fin 0) = ''0.0''"
  by (simp add: spec_score_def rnd64_3_5 rnd64_2_5 rnd64_0 jadd_def jmul_def jdiv_def
      toFixed_def)

lemma toFixed_zero:
  "toFixed (jadd (jmul (jmul (jdiv (Fin 0) (Fin 5)) (Fin 10)) (rnd64 (3 / 5)))
                 (jmul (jdiv (Fin 0) (Fin 10)) (rnd64 (2 / 5)))) (Suc 0) = ''0.0''"
  using spec_score_zero by (simp add: spec_score_def)

lemma other_fields_default:
  \<open>displayResults bare_response popup_opened =
     (Inr (),
      popup_opened
        \<lparr>currentProductData := put bare_response ''url'' (Str []),
         productNameEl_text := ''Product Name Not Found'',
         scoreEl_text := ''0.0 / 10'',
         positiveBarEl_width := ''0%'',
         sentimentTextEl_text := ''0% Positive'',
         summaryEl_text := ''No summary available.'',
         prosListEl :=
           [Element ''h3'' [] [Markup ''<i class="fas fa-thumbs-up icon-green"></i>Pros''],
            Element ''ul'' ''verdict-list'' [Markup ''<li class="empty-list">N/A</li>'']],
         consListEl :=
           [Element ''h3'' [] [Markup ''<i class="fas fa-thumbs-down icon-red"></i>Cons''],
            Element ''ul'' ''verdict-list'' [Markup ''<li class="empty-list">N/A</li>'']],
         resultsDiv_hidden := False\<rparr>)\<close>
  by (simp add: bare_response_def displayResults_def parsed_rating_absent calculateScore_eq
      spec_score_zero populateVerdictList_def verdict_ul_def Let_def lor_def text_of_def
      num_to_string_def popup_opened_def)

lemma other_fields_default_p0:
  \<open>displayResults_p0 bare_response popup_opened =
     (Inr (),
      popup_opened
        \<lparr>productNameEl_text := ''Product Name Not Found'',
         scoreEl_text := ''0.0 / 10'',
         positiveBarEl_width := ''0%'',
         sentimentTextEl_text := ''0% Positive'',
         summaryEl_text := ''No summary available.'',
         prosListEl :=
           [Element ''h3'' [] [Markup ''<i class="fas fa-thumbs-up icon-green"></i>Pros''],
            Element ''ul'' ''verdict-list'' [Element ''li'' ''empty-list'' [Text ''N/A'']]],
         consListEl :=
           [Element ''h3'' [] [Markup ''<i class="fas fa-thumbs-down icon-red"></i>Cons''],
            Element ''ul'' ''verdict-list'' [Element ''li'' ''empty-list'' [Text ''N/A'']]],
         resultsDiv_hidden := False\<rparr>)\<close>
  by (simp add: bare_response_def displayResults_p0_def parsed_rating_absent toFixed_zero
      populateVerdictList_p0_def verdict_ul_p0_def Let_def lor_def text_of_def
      num_to_string_def popup_opened_def)

lemma list_html_absent:
  "list_html heading Undefined = Inr (''<h4>'' @ heading @ ''</h4><ul><li>N/A</li></ul>'')"
  by (simp add: list_html_def lor_def jgreater_Fin Let_def)

lemma other_fields_default_legacy:
  \<open>displayResults_legacy bare_response popup_opened =
     (Inr (),
      popup_opened
        \<lparr>productNameEl_text := ''Product Name Not Found'',
         scoreEl_text := ''0.0 / 10'',
         positiveBarEl_width := ''0%'',
         sentimentTextEl_text := ''0% Positive Sentiment'',
         summaryEl_text := ''No summary available.'',
         prosListEl := [Markup ''<h4>Pros</h4><ul><li>N/A</li></ul>''],
         consListEl := [Markup ''<h4>Cons</h4><ul><li>N/A</li></ul>''],
         resultsDiv_hidden := False\<rparr>)\<close>
  by (simp add: bare_response_def displayResults_legacy_def parsed_rating_absent toFixed_zero
      list_html_absent block_Cons andThen_def bind_def expr_def modify_def ret_def
      Let_def lor_def text_of_def num_to_string_def popup_opened_def)

section \<open>The error messages of \<open>callBackend\<close>\<close>





section \<open>The bookmark store\<close>

lemma get_product_name: "truthy v \<Longrightarrow> get v ''product_name'' = Inr (product_name_of v)"
  using truthy_readable [of v "''product_name''"] by (auto simp: product_name_of_def)

lemma some_product_name_eq:
  "\<forall>b\<in>set bs. truthy b \<Longrightarrow> truthy current \<Longrightarrow>
   some_product_name bs current =
     Inr (\<exists>b\<in>set bs. strict_eq (product_name_of b) (product_name_of current))"
  by (induction bs) (auto simp: get_product_name)

lemma bind_getBookmarks:
  "fst (getBookmarks s) = Inr v \<Longrightarrow> bind getBookmarks k s = k v s"
  by (simp add: bind_def getBookmarks_def)

lemma filter_index_later: "i < k \<Longrightarrow> filter_index k bs (Fin (of_nat i)) = bs"
  by (induction bs arbitrary: k) (simp_all add: strict_eq_index)

lemma filter_index_position:
  "k \<le> j \<Longrightarrow>
   filter_index k bs (Fin (of_nat j)) = take (j - k) bs @ drop (Suc (j - k)) bs"
proof (induction bs arbitrary: k)
  case Nil
  show ?case by simp
next
  case (Cons b bs)
  show ?case
  proof (cases "j = k")
    case True
    then show ?thesis
      using filter_index_later [of j "Suc k" bs] by (simp add: strict_eq_index)
  next
    case False
    with Cons.prems have "Suc k \<le> j" by simp
    then have "filter_index (Suc k) bs (Fin (of_nat j)) =
                 take (j - Suc k) bs @ drop (Suc (j - Suc k)) bs"
      by (rule Cons.IH)
    moreover from \<open>Suc k \<le> j\<close> have "j - k = Suc (j - Suc k)" by simp
    ultimately show ?thesis
      using False by (simp add: strict_eq_index)
  qed
qed

lemma keeps_getBookmarks [simp]: "keeps f getBookmarks"
  by (simp add: keeps_def getBookmarks_def)

lemma keeps_bookmark_items:
  "(\<And>g s. f (bookmarksListContainer_update g s) = f s) \<Longrightarrow> keeps f (bookmark_items bs n)"
  by (induction bs arbitrary: n) (auto intro!: keeps_andThen keeps_bind keeps_modify)

lemma keeps_loadAndRenderBookmarks:
  "(\<And>g s. f (bookmarksListContainer_update g s) = f s) \<Longrightarrow> keeps f loadAndRenderBookmarks"
  unfolding loadAndRenderBookmarks_def
  by (auto intro!: keeps_andThen keeps_bind keeps_modify keeps_bookmark_items)

section \<open>The claims\<close>

text \<open>
  Claim C1, as far as it holds. A response without \<open>overall_score\<close>, whose \<open>rating\<close> is a
  string with a numeric leading token read as \<open>x\<close> and whose
  \<open>public_opinion.positive_percent\<close> is a number \<open>p\<close>, both from 0 to \<open>10 ^ 15\<close>, is
  shown by the first script of \<open>popup.js\<close> (through \<open>calculateScore\<close>) and by \<open>part_000\<close>
  with the value \<open>(x/5*10)*0.6 + (p/10)*0.4\<close> rounded to one decimal, provided the value is
  farther than \<open>(x + p + 1) / 2 ^ 50\<close> from every midpoint between two neighbouring numbers
  of one decimal. In every case the score shown is a number of tenths within
  \<open>0.05 + (x + p + 1) / 2 ^ 50\<close> of the value.
\<close>

theorem fallback_score_rounded:
  assumes "get data ''overall_score'' = Inr Undefined"
    and "get data ''rating'' = Inr (Str r)"
    and "parseFloat (takeWhile (\<lambda>c. c \<noteq> CHR '' '') r) = Fin x"
    and "get data ''public_opinion'' = Inr public_opinion"
    and "get public_opinion ''positive_percent'' = Inr (Num (Fin p))"
    and "0 \<le> x" and "x \<le> 10 ^ 15" and "0 \<le> p" and "p \<le> 10 ^ 15"
  shows "((x + p + 1) / 2 ^ 50 < midpoint_distance (exact_score x p) \<longrightarrow>
            scoreEl_text (snd (displayResults data st)) =
              one_decimal (exact_score x p) @ '' / 10'' \<and>
            scoreEl_text (snd (displayResults_p0 data st)) =
              one_decimal (exact_score x p) @ '' / 10'') \<and>
         (\<exists>n. scoreEl_text (snd (displayResults data st)) = tenths_text n @ '' / 10'' \<and>
              scoreEl_text (snd (displayResults_p0 data st)) = tenths_text n @ '' / 10'' \<and>
              \<bar>of_nat n / 10 - exact_score x p\<bar> \<le> 1 / 20 + (x + p + 1) / 2 ^ 50)"
proof -
  have po: "truthy public_opinion"
    using assms(5) by (cases public_opinion) (auto simp: index_of_key_def is_digit_def)
  have "r \<noteq> []" using assms(3) by (auto simp: parseFloat_Nil)
  with assms(2,3) have r: "parsed_rating data = Inr (Fin x)"
    by (simp add: parsed_rating_Str)
  have p: "to_number (lor (Num (Fin p)) (Num (Fin 0))) = Fin p"
    by (simp add: lor_def)
  have shown: "scoreEl_text (snd (displayResults data st)) = spec_score (Fin x) (Fin p) @ '' / 10''"
      "scoreEl_text (snd (displayResults_p0 data st)) = spec_score (Fin x) (Fin p) @ '' / 10''"
    using displayResults_score [OF assms(1) _ assms(4) po r assms(5), of st]
      displayResults_p0_score [OF assms(1) _ assms(4) po r assms(5), of st]
    by (simp_all add: p)
  show ?thesis
    unfolding shown using spec_score_rounded [OF assms(6-9)] by auto
qed

text \<open>The example of the specification: rating \<open>"4.5 out of 5"\<close> and 80 percent give 8.6.\<close>

theorem fallback_score_rounded_witness:
  "scoreEl_text (snd (displayResults rated_response popup_opened)) = ''8.6 / 10'' \<and>
   scoreEl_text (snd (displayResults_p0 rated_response popup_opened)) = ''8.6 / 10''"
  using fallback_score_rounded
    [of rated_response "''4.5 out of 5''" "9 / 2" "Obj [(''positive_percent'', Num (Fin 80))]" 80
        popup_opened, THEN conjunct1]
  by (simp add: rated_response_def parseFloat_4_5 one_decimal_example midpoint_distance_example)

text \<open>
  The claim has the score be the rounded value for every rating and percentage. With the
  rating 4.5 and 3.75 percent the value is 5.55, which rounds to 5.6; the scripts show 5.5,
  the binary64 result of the formula being just below 5.55.
\<close>

theorem midpoint_score_rounds_down:
  "exact_score (9 / 2) (15 / 4) = 111 / 20 \<and>
   one_decimal (exact_score (9 / 2) (15 / 4)) = ''5.6'' \<and>
   scoreEl_text (snd (displayResults midpoint_response popup_opened)) = ''5.5 / 10'' \<and>
   scoreEl_text (snd (displayResults_p0 midpoint_response popup_opened)) = ''5.5 / 10'' \<and>
   scoreEl_text (snd (displayResults midpoint_response popup_opened)) \<noteq>
     one_decimal (exact_score (9 / 2) (15 / 4)) @ '' / 10'' \<and>
   scoreEl_text (snd (displayResults_p0 midpoint_response popup_opened)) \<noteq>
     one_decimal (exact_score (9 / 2) (15 / 4)) @ '' / 10''"
proof -
  have a: "scoreEl_text (snd (displayResults midpoint_response popup_opened)) = ''5.5 / 10''"
    using displayResults_score [of midpoint_response Undefined
        "Obj [(''positive_percent'', Num (Fin (15 / 4)))]" "Fin (9 / 2)" "Num (Fin (15 / 4))"
        popup_opened]
    by (simp add: midpoint_response_def parsed_rating_example lor_def spec_score_midpoint)
  have b: "scoreEl_text (snd (displayResults_p0 midpoint_response popup_opened)) = ''5.5 / 10''"
    using displayResults_p0_score [of midpoint_response Undefined
        "Obj [(''positive_percent'', Num (Fin (15 / 4)))]" "Fin (9 / 2)" "Num (Fin (15 / 4))"
        popup_opened]
    by (simp add: midpoint_response_def parsed_rating_example lor_def spec_score_midpoint)
  have c: "exact_score (9 / 2) (15 / 4) = 111 / 20"
    by (simp add: exact_score_def)
  show ?thesis
    unfolding a b one_decimal_midpoint using c by simp
qed

text \<open>
  Claim C2. With \<open>public_opinion\<close> present, \<open>displayResults\<close> is to degrade every other
  missing field to its default. It does not for \<open>pros_cons_panel\<close>: on a response that has
  every field but this one, \<open>data.pros_cons_panel.pros\<close> throws a \<open>TypeError\<close> in each of the
  three scripts, after the other elements were written and before the results are shown.
  (With an empty panel object every default applies: see \<open>other_fields_default\<close>.)
\<close>

theorem missing_panel_throws:
  "fst (displayResults no_panel_response popup_opened) =
     Inl (no_properties ''undefined'' ''pros'') \<and>
   resultsDiv_hidden (snd (displayResults no_panel_response popup_opened)) \<and>
   fst (displayResults_p0 no_panel_response popup_opened) =
     Inl (no_properties ''undefined'' ''pros'') \<and>
   resultsDiv_hidden (snd (displayResults_p0 no_panel_response popup_opened)) \<and>
   fst (displayResults_legacy no_panel_response popup_opened) =
     Inl (no_properties ''undefined'' ''pros'') \<and>
   resultsDiv_hidden (snd (displayResults_legacy no_panel_response popup_opened))"
  by (simp add: no_panel_response_def displayResults_def displayResults_p0_def
      displayResults_legacy_def parsed_rating_example Let_def popup_opened_def)

text \<open>
  Claim C3. When the response is \<open>null\<close> or \<open>undefined\<close>, or has no \<open>public_opinion\<close>,
  \<open>displayResults\<close> shows the error \<open>Received invalid data from the server.\<close> and returns
  without throwing. Nothing else of the popup changes, and the outcome is the same for all
  such responses: no other field of the response is read.
\<close>

theorem missing_public_opinion_is_an_error:
  assumes "data = Undefined \<or> data = Null \<or> get data ''public_opinion'' = Inr Undefined"
  shows "displayResults data st =
           (Inr (), st\<lparr>errorDiv_text := ''Received invalid data from the server.'',
                       errorDiv_hidden := False\<rparr>) \<and>
         displayResults_p0 data st =
           (Inr (), st\<lparr>errorDiv_text := ''Received invalid data from the server.'',
                       errorDiv_hidden := False\<rparr>)"
  using assms
  by (auto simp: displayResults_def displayResults_p0_def displayError_def modify_def text_of_def)

theorem missing_public_opinion_is_an_error_witness:
  "displayResults (Obj [(''rating'', Str ''4.5 out of 5'')]) popup_opened =
     (Inr (), popup_opened\<lparr>errorDiv_text := ''Received invalid data from the server.'',
                          errorDiv_hidden := False\<rparr>) \<and>
   displayResults_p0 (Obj [(''rating'', Str ''4.5 out of 5'')]) popup_opened =
     (Inr (), popup_opened\<lparr>errorDiv_text := ''Received invalid data from the server.'',
                          errorDiv_hidden := False\<rparr>)"
  using missing_public_opinion_is_an_error
    [of "Obj [(''rating'', Str ''4.5 out of 5'')]" popup_opened]
  by simp

text \<open>
  Claim C4. Adding a bookmark, with the result in \<open>currentProductData\<close> and the list \<open>bs\<close>
  in storage (the empty list before the first write): if the \<open>product_name\<close> of an entry
  is \<open>===\<close> to that of the result, storage stays as it is and the user is told; if none
  is, the result is appended after the entries, which stay in their order. The entries of a
  stored list are results saved earlier, none of them \<open>null\<close>.
\<close>

theorem bookmark_add:
  assumes "truthy (currentProductData st)" and "fst (getBookmarks st) = Inr (Arr bs)"
    and "\<forall>b\<in>set bs. truthy b"
  shows "((\<exists>b\<in>set bs. strict_eq (product_name_of b) (product_name_of (currentProductData st)))
            \<longrightarrow> bookmarkBtn_click st =
                  (Inr (), st\<lparr>alerts := alerts st @ [''This product is already bookmarked!'']\<rparr>)) \<and>
         ((\<forall>b\<in>set bs. \<not> strict_eq (product_name_of b) (product_name_of (currentProductData st)))
            \<longrightarrow> bookmarkBtn_click st =
                  (Inr (), st\<lparr>storage_bookmarks := Arr (bs @ [currentProductData st]),
                              alerts := alerts st @ [''Product bookmarked!'']\<rparr>))"
  using assms
  by (auto simp: bookmarkBtn_click_def bind_getBookmarks some_product_name_eq alert_def
      saveBookmarks_def modify_def)

theorem bookmark_add_witness:
  "bookmarkBtn_click (popup_opened\<lparr>currentProductData := phone,
                                    storage_bookmarks := Arr [phone, laptop]\<rparr>) =
     (Inr (), popup_opened\<lparr>currentProductData := phone,
                            storage_bookmarks := Arr [phone, laptop],
                            alerts := [''This product is already bookmarked!'']\<rparr>) \<and>
   bookmarkBtn_click (popup_opened\<lparr>currentProductData := tablet,
                                    storage_bookmarks := Arr [phone, laptop]\<rparr>) =
     (Inr (), popup_opened\<lparr>currentProductData := tablet,
                            storage_bookmarks := Arr [phone, laptop, tablet],
                            alerts := [''Product bookmarked!'']\<rparr>)"
  using bookmark_add [of "popup_opened\<lparr>currentProductData := phone,
                                         storage_bookmarks := Arr [phone, laptop]\<rparr>"
                          "[phone, laptop]"]
    bookmark_add [of "popup_opened\<lparr>currentProductData := tablet,
                                     storage_bookmarks := Arr [phone, laptop]\<rparr>"
                     "[phone, laptop]"]
  by (simp add: getBookmarks_def lor_def phone_def laptop_def tablet_def product_name_of_def
      strict_eq_def popup_opened_def)

text \<open>
  Claim C5. Deleting position \<open>i\<close> of a stored list \<open>bs\<close> of length \<open>n\<close>, \<open>i < n\<close>: after
  the click on the delete button whose \<open>data-index\<close> reads as \<open>i\<close>, confirmed by the user,
  storage holds the entries before position \<open>i\<close> followed by those after it, \<open>n - 1\<close> in
  all.
\<close>

theorem bookmark_delete:
  assumes "fst (getBookmarks st) = Inr (Arr bs)" and "i < length bs"
    and "parseInt10 (to_string dataset_index) = Fin (of_nat i)"
  shows "storage_bookmarks (snd (bookmarksListContainer_click (Some dataset_index) True st)) =
           Arr (take i bs @ drop (Suc i) bs) \<and>
         length (take i bs @ drop (Suc i) bs) = length bs - 1 \<and>
         (\<forall>j<length bs - 1.
            (take i bs @ drop (Suc i) bs) ! j = bs ! (if j < i then j else Suc j))"
proof -
  have "storage_bookmarks (snd (bookmarksListContainer_click (Some dataset_index) True st)) =
           Arr (take i bs @ drop (Suc i) bs)"
    using assms(1,3)
    apply (simp add: bookmarksListContainer_click_def bind_getBookmarks saveBookmarks_def
        filter_index_position [of 0 i bs, simplified])
    apply (subst block_keeps [where f = storage_bookmarks])
     apply (auto intro!: keeps_loadAndRenderBookmarks)
    done
  moreover have "length (take i bs @ drop (Suc i) bs) = length bs - 1"
    using assms(2) by simp
  moreover have "\<forall>j<length bs - 1.
      (take i bs @ drop (Suc i) bs) ! j = bs ! (if j < i then j else Suc j)"
    using assms(2) by (auto simp: nth_append min_def)
  ultimately show ?thesis by simp
qed

theorem bookmark_delete_witness:
  "storage_bookmarks
     (snd (bookmarksListContainer_click (Some (Str ''1'')) True
            (popup_opened\<lparr>storage_bookmarks := Arr [phone, laptop, tablet]\<rparr>))) =
     Arr [phone, tablet]"
  using bookmark_delete
    [of "popup_opened\<lparr>storage_bookmarks := Arr [phone, laptop, tablet]\<rparr>"
        "[phone, laptop, tablet]" 1 "Str ''1''"]
  by (simp add: getBookmarks_def lor_def parseInt10_1)

text \<open>
  Claim C6. A pros or cons list with more than 4 entries is to be shown by its first 4
  entries. The second script of \<open>popup.js\<close> has no such cut: it writes one \<open>li\<close> for each of
  five entries (strings, as it expects them, or keyword objects), where
  \<open>populateVerdictList\<close> of the other two scripts keeps four of the same five.
\<close>

theorem legacy_list_is_not_capped:
  \<open>prosListEl (snd (displayResults_legacy five_pros_response popup_opened)) =
     [Markup ''<h4>Pros</h4><ul><li>fast</li><li>light</li><li>cheap</li><li>sturdy</li><li>quiet</li></ul>''] \<and>
   prosListEl (snd (displayResults_legacy five_entries_response popup_opened)) =
     [Markup ''<h4>Pros</h4><ul><li>[object Object]</li><li>[object Object]</li><li>[object Object]</li><li>[object Object]</li><li>[object Object]</li></ul>''] \<and>
   (\<exists>lis. verdict_ul (Arr five_entries) = Inr (Element ''ul'' ''verdict-list'' lis) \<and>
          length lis = 4) \<and>
   (\<exists>lis. verdict_ul_p0 (Arr five_entries) = Inr (Element ''ul'' ''verdict-list'' lis) \<and>
          length lis = 4)\<close>
proof -
  have "4 < length five_entries"
    by (simp add: five_entries_def)
  moreover have "\<forall>x\<in>set (take 4 five_entries). wf_entry x"
    by (simp add: five_entries_def battery_entry_def screen_entry_def wf_entry_def is_text_def)
  ultimately have
    "(\<exists>lis. verdict_ul (Arr five_entries) = Inr (Element ''ul'' ''verdict-list'' lis) \<and>
            length lis = 4) \<and>
     (\<exists>lis. verdict_ul_p0 (Arr five_entries) = Inr (Element ''ul'' ''verdict-list'' lis) \<and>
            length lis = 4)"
    using verdict_list_first_four [of five_entries] by blast
  moreover
  have "prosListEl (snd (displayResults_legacy five_pros_response popup_opened)) =
     [Markup ''<h4>Pros</h4><ul><li>fast</li><li>light</li><li>cheap</li><li>sturdy</li><li>quiet</li></ul>'']"
    by (simp add: five_pros_response_def displayResults_legacy_def parsed_rating_absent
        list_html_Arr list_html_empty Let_def lor_def)
  moreover
  have "prosListEl (snd (displayResults_legacy five_entries_response popup_opened)) =
     [Markup ''<h4>Pros</h4><ul><li>[object Object]</li><li>[object Object]</li><li>[object Object]</li><li>[object Object]</li><li>[object Object]</li></ul>'']"
    by (simp add: five_entries_response_def five_entries_def battery_entry_def
        screen_entry_def displayResults_legacy_def parsed_rating_absent
        list_html_Arr list_html_empty Let_def lor_def)
  ultimately show ?thesis by simp
qed

text \<open>
  Claim C7, as far as it holds. In the fallback score the rating is what \<open>parseFloat\<close>
  reads from the leading token of the \<open>rating\<close> string, the text before its first space;
  it is 0 when the \<open>rating\<close> field is absent (or \<open>null\<close>, or empty).
\<close>

theorem rating_of_fallback:
  "(get data ''rating'' = Inr v \<and> \<not> truthy v \<longrightarrow> parsed_rating data = Inr (Fin 0)) \<and>
   (get data ''rating'' = Inr (Str r) \<and> r \<noteq> [] \<longrightarrow>
      parsed_rating data = Inr (parseFloat (takeWhile (\<lambda>c. c \<noteq> CHR '' '') r)))"
  by (simp add: parsed_rating_falsy parsed_rating_Str)

theorem rating_of_fallback_witness:
  "parsed_rating five_pros_response = Inr (Fin 0) \<and>
   parsed_rating rated_response = Inr (Fin (9 / 2))"
  using rating_of_fallback [of five_pros_response Undefined]
    rating_of_fallback [of rated_response _ "''4.5 out of 5''"]
  by (simp add: five_pros_response_def rated_response_def parseFloat_4_5)

text \<open>
  The claim also has the rating be 0 when the leading token is no number. It is \<open>NaN\<close>
  then, and so is the score that is shown.
\<close>

theorem unparseable_rating_is_NaN:
  "parsed_rating unrated_response = Inr NaN \<and>
   scoreEl_text (snd (displayResults unrated_response popup_opened)) = ''NaN / 10'' \<and>
   scoreEl_text (snd (displayResults_p0 unrated_response popup_opened)) = ''NaN / 10''"
proof -
  have r: "parsed_rating unrated_response = Inr NaN"
    by (simp add: unrated_response_def parsed_rating_Str parseFloat_N_A)
  show ?thesis
    using r
      displayResults_score [of unrated_response Undefined
        "Obj [(''positive_percent'', Num (Fin 80))]" NaN "Num (Fin 80)" popup_opened]
      displayResults_p0_score [of unrated_response Undefined
        "Obj [(''positive_percent'', Num (Fin 80))]" NaN "Num (Fin 80)" popup_opened]
    by (simp add: unrated_response_def lor_def spec_score_NaN)
qed

text \<open>
  Claim C8. The first example of an entry is to be shown as a quote: its first 50
  characters and \<open>...\<close> when it is longer, the text itself otherwise. \<open>part_000\<close> makes the
  quote the text of the \<open>blockquote\<close> (lemma \<open>example_quote_p0\<close>). The first script of
  \<open>popup.js\<close> writes it into the markup that it assigns to \<open>li.innerHTML\<close> instead, where the
  browser reads an example such as \<open>Great <b>battery</b> life\<close> as HTML: the tags are not
  part of the quote that is rendered.
\<close>

theorem quote_written_as_markup:
  \<open>verdict_li markup_entry =
     Inr (Element ''li'' []
           [Reparsed [Markup ''<span class="keyword">battery</span>'']
              ''<blockquote class="example-quote">"Great <b>battery</b> life"</blockquote>'']) \<and>
   verdict_li_p0 markup_entry =
     Inr (Element ''li'' []
           [Element ''span'' ''keyword'' [Text ''battery''],
            Element ''blockquote'' ''example-quote'' [Text ''"Great <b>battery</b> life"'']])\<close>
  using example_quote_markup [of markup_entry "Str ''battery''" "''Great <b>battery</b> life''" "[]"]
    example_quote_p0 [of markup_entry "Str ''battery''" "''Great <b>battery</b> life''" "[]"]
  by (simp add: markup_entry_def spec_quote_def text_children_def text_of_def)




text \<open>
  Claim C10. A response whose \<open>overall_score\<close> is present but falsy (\<open>0\<close>, for one) is not
  shown with that value: the test \<open>data.overall_score\<close> is one of truthiness, and the
  fallback formula is computed and shown instead.
\<close>

theorem falsy_overall_score_shows_fallback:
  assumes "get data ''overall_score'' = Inr overall_score" and "\<not> truthy overall_score"
    and "get data ''public_opinion'' = Inr public_opinion" and "truthy public_opinion"
    and "parsed_rating data = Inr rating"
    and "get public_opinion ''positive_percent'' = Inr p"
  shows "scoreEl_text (snd (displayResults data st)) =
           spec_score rating (to_number (lor p (Num (Fin 0)))) @ '' / 10'' \<and>
         scoreEl_text (snd (displayResults_p0 data st)) =
           spec_score rating (to_number (lor p (Num (Fin 0)))) @ '' / 10''"
  using assms by (simp add: displayResults_score displayResults_p0_score)

text \<open>With \<open>overall_score: 0\<close> the popup shows \<open>8.6 / 10\<close>, not \<open>0 / 10\<close>.\<close>

theorem falsy_overall_score_shows_fallback_witness:
  "scoreEl_text (snd (displayResults zero_score_response popup_opened)) = ''8.6 / 10'' \<and>
   scoreEl_text (snd (displayResults_p0 zero_score_response popup_opened)) = ''8.6 / 10''"
  using falsy_overall_score_shows_fallback
    [of zero_score_response "Num (Fin 0)" "Obj [(''positive_percent'', Num (Fin 80))]"
        "Fin (9 / 2)" "Num (Fin 80)" popup_opened]
  by (simp add: zero_score_response_def parsed_rating_example lor_def spec_score_example)

end
